theory Spec2Isabelle
  imports Main "HOL-Library.Sublist"
begin

section \<open>JavaScript values read by the webhook handler\<close>

text \<open>
  The handler of \<^verbatim>\<open>src/pg.js\<close> (the cached variant, lines 132-272, which the
  specification takes as canonical) reads a request whose body is either a string or an
  already decoded JSON value. A value is a JSON value or \<^verbatim>\<open>undefined\<close>. Numbers are
  IEEE doubles in the source; the handler only tests them for truthiness and converts them
  to text, so the number type is a parameter and both operations come from the runtime.
\<close>

datatype 'n jsval =
    JUndefined
  | JNull
  | JBool bool
  | JNum 'n
  | JStr string
  | JArr "'n jsval list"
  | JObj "(string \<times> 'n jsval) list"

text \<open>Errors thrown inside the handler; each constructor is one \<^verbatim>\<open>throw\<close> site or one
  failing builtin.\<close>

datatype js_error =
    TypeError
  | NetworkError
  | BodyReadError
  | JsonSyntaxError
  | TemplateFetchStatus nat
  | ResendApiStatus nat
  | GitHubFetchStatus nat
  | ResendApiErrorText nat string
  | KeyNotConfigured

text \<open>
  Builtins of the JavaScript runtime that the source calls but does not define:
  \<^verbatim>\<open>JSON.parse\<close> (\<open>None\<close> is its \<^verbatim>\<open>SyntaxError\<close>), the falsiness of a number
  (\<open>+0\<close>, \<open>-0\<close>, \<open>NaN\<close>) and \<^verbatim>\<open>Number.prototype.toString\<close>.
\<close>

record 'n runtime =
  json_parse :: "string \<Rightarrow> 'n jsval option"
  number_falsy :: "'n \<Rightarrow> bool"
  number_to_string :: "'n \<Rightarrow> string"

definition nullish :: "'n jsval \<Rightarrow> bool" where
  "nullish v = (v = JUndefined \<or> v = JNull)"

text \<open>\<^verbatim>\<open>ToBoolean\<close>, as used by \<^verbatim>\<open>!x\<close> and \<^verbatim>\<open>x || y\<close>.\<close>

fun truthy :: "'n runtime \<Rightarrow> 'n jsval \<Rightarrow> bool" where
  "truthy rt JUndefined = False"
| "truthy rt JNull = False"
| "truthy rt (JBool b) = b"
| "truthy rt (JNum n) = (\<not> number_falsy rt n)"
| "truthy rt (JStr s) = (s \<noteq> [])"
| "truthy rt (JArr xs) = True"
| "truthy rt (JObj kvs) = True"

text \<open>
  Reading a property of a value that is neither \<^verbatim>\<open>null\<close> nor \<^verbatim>\<open>undefined\<close>, for
  the property names this program reads (\<^verbatim>\<open>event_type\<close>, \<^verbatim>\<open>resource\<close>,
  \<^verbatim>\<open>payer\<close>, \<^verbatim>\<open>email_address\<close>, \<^verbatim>\<open>purchase_units\<close>, \<^verbatim>\<open>items\<close>,
  \<^verbatim>\<open>name\<close>, \<^verbatim>\<open>id\<close> and the index \<^verbatim>\<open>0\<close>): none of them is inherited from a
  prototype, so an object answers with its own property, an array and a string answer
  only to the index, and every other value answers \<^verbatim>\<open>undefined\<close>.
\<close>

fun get_prop :: "string \<Rightarrow> 'n jsval \<Rightarrow> 'n jsval" where
  "get_prop k (JObj kvs) = (case map_of kvs k of Some v \<Rightarrow> v | None \<Rightarrow> JUndefined)"
| "get_prop k (JArr xs) =
     (if k = ''0'' then (case xs of [] \<Rightarrow> JUndefined | x # _ \<Rightarrow> x) else JUndefined)"
| "get_prop k (JStr s) =
     (if k = ''0'' then (case s of [] \<Rightarrow> JUndefined | c # _ \<Rightarrow> JStr [c]) else JUndefined)"
| "get_prop k v = JUndefined"

text \<open>\<^verbatim>\<open>v.k\<close> throws a \<^verbatim>\<open>TypeError\<close> on \<^verbatim>\<open>null\<close> and \<^verbatim>\<open>undefined\<close>;
  \<^verbatim>\<open>v?.k\<close> answers \<^verbatim>\<open>undefined\<close> there.\<close>

definition member :: "string \<Rightarrow> 'n jsval \<Rightarrow> js_error + 'n jsval" where
  "member k v = (if nullish v then Inl TypeError else Inr (get_prop k v))"

definition opt_member :: "string \<Rightarrow> 'n jsval \<Rightarrow> 'n jsval" where
  "opt_member k v = (if nullish v then JUndefined else get_prop k v)"

text \<open>\<^verbatim>\<open>a || b\<close>.\<close>

definition js_or :: "'n runtime \<Rightarrow> 'n jsval \<Rightarrow> 'n jsval \<Rightarrow> 'n jsval" where
  "js_or rt a b = (if truthy rt a then a else b)"

text \<open>
  \<^verbatim>\<open>ToString\<close>, applied by \<^verbatim>\<open>String.prototype.replace\<close> to its replacement and by
  template literals to their holes. An array is joined with commas, \<^verbatim>\<open>null\<close> and
  \<^verbatim>\<open>undefined\<close> elements giving the empty string. A decoded JSON object prints as
  \<^verbatim>\<open>[object Object]\<close>, unless it has an own property \<^verbatim>\<open>toString\<close>: that one is not
  callable, \<^verbatim>\<open>valueOf\<close> does not give a primitive, and the conversion throws.
\<close>

fun to_string :: "'n runtime \<Rightarrow> 'n jsval \<Rightarrow> js_error + string"
  and join_elements :: "'n runtime \<Rightarrow> 'n jsval list \<Rightarrow> js_error + string" where
  "to_string rt JUndefined = Inr ''undefined''"
| "to_string rt JNull = Inr ''null''"
| "to_string rt (JBool b) = Inr (if b then ''true'' else ''false'')"
| "to_string rt (JNum n) = Inr (number_to_string rt n)"
| "to_string rt (JStr s) = Inr s"
| "to_string rt (JArr xs) = join_elements rt xs"
| "to_string rt (JObj kvs) =
     (if map_of kvs ''toString'' = None then Inr ''[object Object]'' else Inl TypeError)"
| "join_elements rt [] = Inr []"
| "join_elements rt (x # xs) =
     (case (if x = JUndefined \<or> x = JNull then Inr [] else to_string rt x) of
        Inl e \<Rightarrow> Inl e
      | Inr s \<Rightarrow>
          (if xs = [] then Inr s
           else (case join_elements rt xs of
                   Inl e \<Rightarrow> Inl e
                 | Inr r \<Rightarrow> Inr (s @ '','' @ r))))"

section \<open>Template substitution\<close>

text \<open>
  \<^verbatim>\<open>GetSubstitution\<close> of ECMAScript for a pattern without capture groups: in the
  replacement text \<^verbatim>\<open>$$\<close> stands for a dollar sign, \<^verbatim>\<open>$&\<close> for the matched text,
  \<^verbatim>\<open>$`\<close> for the part of the subject before the match and \<^verbatim>\<open>$'\<close> for the part
  after it; every other character, a dollar sign before anything else included, is copied.
\<close>

fun get_substitution :: "string \<Rightarrow> string \<Rightarrow> string \<Rightarrow> string \<Rightarrow> string" where
  "get_substitution m bef aft [] = []"
| "get_substitution m bef aft [c] = [c]"
| "get_substitution m bef aft (c # d # r) =
     (if c = CHR ''$'' \<and> d = CHR ''$'' then CHR ''$'' # get_substitution m bef aft r
      else if c = CHR ''$'' \<and> d = CHR ''&'' then m @ get_substitution m bef aft r
      else if c = CHR ''$'' \<and> d = CHR 0x60 then bef @ get_substitution m bef aft r
      else if c = CHR ''$'' \<and> d = CHR 0x27 then aft @ get_substitution m bef aft r
      else c # get_substitution m bef aft (d # r))"

text \<open>
  \<^verbatim>\<open>s.replace(/p/g, v)\<close> for a pattern \<open>p\<close> that is literal text, as both patterns of
  the source are: the subject is scanned from the left, \<open>bef\<close> holding what has been
  passed; at a match the expanded replacement is emitted and the scan goes on behind the
  match, otherwise one character is copied.
\<close>

function replace_global :: "string \<Rightarrow> string \<Rightarrow> string \<Rightarrow> string \<Rightarrow> string" where
  "replace_global p v bef [] = []"
| "replace_global p v bef (c # cs) =
     (if p \<noteq> [] \<and> prefix p (c # cs)
      then get_substitution p bef (drop (length p) (c # cs)) v
           @ replace_global p v (bef @ p) (drop (length p) (c # cs))
      else c # replace_global p v (bef @ [c]) cs)"
  by pat_completeness auto
termination
  by (relation "measure (\<lambda>(p, v, bef, s). length s)") auto

definition js_replace_all :: "string \<Rightarrow> string \<Rightarrow> string \<Rightarrow> string" where
  "js_replace_all p v s = replace_global p v [] s"

definition item_marker :: string where
  "item_marker = ''{{itemName}}''"

definition email_marker :: string where
  "email_marker = ''{{buyerEmail}}''"

text \<open>Step 6 of the handler on strings: the item name first, the buyer's e-mail second.\<close>

definition personalize_str :: "string \<Rightarrow> string \<Rightarrow> string \<Rightarrow> string" where
  "personalize_str t i e = js_replace_all email_marker e (js_replace_all item_marker i t)"

text \<open>Step 6 on the extracted values: each \<^verbatim>\<open>replace\<close> converts its replacement to a
  string first, which may throw.\<close>

definition personalize ::
  "'n runtime \<Rightarrow> string \<Rightarrow> 'n jsval \<Rightarrow> 'n jsval \<Rightarrow> js_error + string" where
  "personalize rt t itemName buyerEmail =
     (case to_string rt itemName of
        Inl e \<Rightarrow> Inl e
      | Inr i \<Rightarrow>
          (case to_string rt buyerEmail of
             Inl e \<Rightarrow> Inl e
           | Inr b \<Rightarrow> Inr (personalize_str t i b)))"

text \<open>Vocabulary for the properties of the substitution.\<close>

definition no_overlap :: "string \<Rightarrow> string \<Rightarrow> bool" where
  "no_overlap p w =
     (\<forall>r \<in> set (suffixes p). r \<noteq> [] \<and> r \<noteq> p \<longrightarrow> \<not> prefix r w \<and> \<not> prefix w r)"

definition no_match_inside :: "string \<Rightarrow> string \<Rightarrow> bool" where
  "no_match_inside p w =
     (\<forall>r \<in> set (suffixes w). r \<noteq> [] \<longrightarrow> \<not> prefix p r \<and> \<not> prefix r p)"



section \<open>Requests, responses and effects\<close>

record 'n request =
  req_method :: "'n jsval"
  req_body :: "'n jsval"

text \<open>The JSON documents the handler answers with.\<close>

datatype 'n reply =
    ErrorJson string
  | MessageJson string
  | SentJson string "'n jsval"

record 'n response =
  status :: nat
  payload :: "'n reply"

definition respond :: "nat \<Rightarrow> 'n reply \<Rightarrow> 'n response" where
  "respond code data = \<lparr>status = code, payload = data\<rparr>"

text \<open>What \<^verbatim>\<open>fetch\<close> comes back with: a rejected promise, or a response with its
  \<^verbatim>\<open>ok\<close> flag, its status and its body text (\<open>None\<close> when reading the body fails).\<close>

datatype http_result =
    NetworkFailure
  | HttpResponse bool nat "string option"

record 'n email_request =
  mail_authorization :: string
  mail_from :: string
  mail_to :: "'n jsval"
  mail_subject :: string
  mail_html :: string

datatype log_arg = LText string | LError js_error

datatype 'n effect =
    FetchTemplate string
  | PostEmail "'n email_request"
  | ConsoleError "log_arg list"

definition GITHUB_EMAIL_URL :: string where
  "GITHUB_EMAIL_URL =
     ''https://raw.githubusercontent.com/PratikDilipGade/PratikGade/main/email.txt''"

definition RESEND_EMAIL :: string where
  "RESEND_EMAIL = ''Your Store <onboarding@resend.dev>''"

section \<open>The template cache\<close>

text \<open>
  \<^verbatim>\<open>cachedEmailTemplate\<close> is \<^verbatim>\<open>null\<close> (\<open>None\<close>) or a string. \<^verbatim>\<open>getEmailTemplate\<close>
  (lines 143-156) returns the cached string when it is truthy; otherwise it fetches,
  throws on a rejected fetch, on a response that is not \<^verbatim>\<open>ok\<close> and on an unreadable
  body, and stores the text only after all of that. The result is what it returns or
  throws, the effects it had, and the cache afterwards.
\<close>

definition template_cached :: "string option \<Rightarrow> bool" where
  "template_cached cache = (case cache of None \<Rightarrow> False | Some t \<Rightarrow> t \<noteq> [])"

definition getEmailTemplate ::
  "http_result \<Rightarrow> string option \<Rightarrow> (js_error + string) \<times> 'n effect list \<times> string option" where
  "getEmailTemplate src cache =
     (case (if template_cached cache then cache else None) of
        Some t \<Rightarrow> (Inr t, [], cache)
      | None \<Rightarrow>
          (case src of
             NetworkFailure \<Rightarrow> (Inl NetworkError, [FetchTemplate GITHUB_EMAIL_URL], cache)
           | HttpResponse ok st body \<Rightarrow>
               (if \<not> ok then (Inl (TemplateFetchStatus st), [FetchTemplate GITHUB_EMAIL_URL], cache)
                else (case body of
                        None \<Rightarrow> (Inl BodyReadError, [FetchTemplate GITHUB_EMAIL_URL], cache)
                      | Some t \<Rightarrow> (Inr t, [FetchTemplate GITHUB_EMAIL_URL], Some t)))))"

definition fetch_failed :: "http_result \<Rightarrow> bool" where
  "fetch_failed src =
     (case src of NetworkFailure \<Rightarrow> True | HttpResponse ok st body \<Rightarrow> \<not> ok \<or> body = None)"

section \<open>The handler\<close>

text \<open>Step 2 (lines 166-175): a string body is decoded, any other body is taken as it is;
  \<open>None\<close> is the caught decode failure.\<close>

definition parse_body :: "'n runtime \<Rightarrow> 'n jsval \<Rightarrow> 'n jsval option" where
  "parse_body rt b = (case b of JStr s \<Rightarrow> json_parse rt s | _ \<Rightarrow> Some b)"

text \<open>Step 4 (lines 183-186): the two optional chains.\<close>

definition buyer_email_of :: "'n jsval \<Rightarrow> 'n jsval" where
  "buyer_email_of resource = opt_member ''email_address'' (opt_member ''payer'' resource)"

definition item_name_path :: "'n jsval \<Rightarrow> 'n jsval" where
  "item_name_path resource =
     opt_member ''name'' (opt_member ''0'' (opt_member ''items''
       (opt_member ''0'' (opt_member ''purchase_units'' resource))))"

definition item_name_of :: "'n runtime \<Rightarrow> 'n jsval \<Rightarrow> 'n jsval" where
  "item_name_of rt resource = js_or rt (item_name_path resource) (JStr ''Digital Product'')"

text \<open>
  Steps 1 to 4 (lines 160-190) end in a response, in a thrown error (reading
  \<^verbatim>\<open>event_type\<close> of \<^verbatim>\<open>null\<close> or \<^verbatim>\<open>undefined\<close>) or in the extracted order: the
  buyer's e-mail and the item name.
\<close>

datatype 'n validated =
    Reply "'n response"
  | Throws js_error
  | Order "'n jsval" "'n jsval"

definition validate :: "'n runtime \<Rightarrow> 'n request \<Rightarrow> 'n validated" where
  "validate rt req =
     (if req_method req \<noteq> JStr ''POST''
      then Reply (respond 405 (ErrorJson ''Method Not Allowed''))
      else (case parse_body rt (req_body req) of
              None \<Rightarrow> Reply (respond 400 (ErrorJson ''Invalid JSON body''))
            | Some body \<Rightarrow>
                (case member ''event_type'' body of
                   Inl e \<Rightarrow> Throws e
                 | Inr event_type \<Rightarrow>
                     (if event_type \<noteq> JStr ''PAYMENT.CAPTURE.COMPLETED''
                      then Reply (respond 200 (MessageJson ''Ignored non-payment event''))
                      else (case member ''resource'' body of
                              Inl e \<Rightarrow> Throws e
                            | Inr resource \<Rightarrow>
                                (if \<not> truthy rt (buyer_email_of resource)
                                 then Reply (respond 400
                                        (ErrorJson ''Buyer email not found in event''))
                                 else Order (buyer_email_of resource)
                                        (item_name_of rt resource)))))))"

text \<open>
  The \<^verbatim>\<open>try\<close> block of step 7 (lines 215-236): the request is built and posted; a
  rejected fetch, a response that is not \<^verbatim>\<open>ok\<close> (its text is logged first) and a body
  that is not JSON all throw into the \<^verbatim>\<open>catch\<close> of line 237.
\<close>

definition send_via_resend ::
  "'n runtime \<Rightarrow> string \<Rightarrow> 'n jsval \<Rightarrow> 'n jsval \<Rightarrow> string \<Rightarrow> http_result
     \<Rightarrow> (js_error + 'n jsval) \<times> 'n effect list" where
  "send_via_resend rt key buyerEmail itemName personalizedEmail prov =
     (case to_string rt itemName of
        Inl e \<Rightarrow> (Inl e, [])
      | Inr name \<Rightarrow>
          (let post = PostEmail
                 \<lparr>mail_authorization = ''Bearer '' @ key,
                  mail_from = RESEND_EMAIL,
                  mail_to = buyerEmail,
                  mail_subject = ''Your '' @ name @ '' is ready!'',
                  mail_html = personalizedEmail\<rparr>
           in (case prov of
                 NetworkFailure \<Rightarrow> (Inl NetworkError, [post])
               | HttpResponse ok st body \<Rightarrow>
                   (if \<not> ok
                    then (case body of
                            None \<Rightarrow> (Inl BodyReadError, [post])
                          | Some text \<Rightarrow>
                              (Inl (ResendApiStatus st),
                               [post, ConsoleError [LText ''Resend API error response:'',
                                                    LText text]]))
                    else (case body of
                            None \<Rightarrow> (Inl BodyReadError, [post])
                          | Some text \<Rightarrow>
                              (case json_parse rt text of
                                 None \<Rightarrow> (Inl JsonSyntaxError, [post])
                               | Some v \<Rightarrow> (Inr v, [post])))))))"

text \<open>
  The body of the outer \<^verbatim>\<open>try\<close> (lines 160-246). \<open>key\<close> is
  \<^verbatim>\<open>process.env.RESEND_API_KEY\<close>, \<open>src\<close> and \<open>prov\<close> are what the template
  source and the e-mail provider answer if they are asked during this invocation.
\<close>

definition webhook_try ::
  "'n runtime \<Rightarrow> string option \<Rightarrow> http_result \<Rightarrow> http_result \<Rightarrow> string option \<Rightarrow> 'n request
     \<Rightarrow> (js_error + 'n response) \<times> 'n effect list \<times> string option" where
  "webhook_try rt key src prov cache req =
     (case validate rt req of
        Reply r \<Rightarrow> (Inr r, [], cache)
      | Throws e \<Rightarrow> (Inl e, [], cache)
      | Order buyerEmail itemName \<Rightarrow>
          (case getEmailTemplate src cache of
             (Inl err, ev, cache') \<Rightarrow>
               (Inr (respond 500 (ErrorJson ''Failed to fetch email template'')),
                ev @ [ConsoleError [LError err]], cache')
           | (Inr emailTemplate, ev, cache') \<Rightarrow>
               (case personalize rt emailTemplate itemName buyerEmail of
                  Inl e \<Rightarrow> (Inl e, ev, cache')
                | Inr personalizedEmail \<Rightarrow>
                    (case (if key = Some [] then None else key) of
                       None \<Rightarrow>
                         (Inr (respond 500 (ErrorJson ''Resend API key not configured'')),
                          ev, cache')
                     | Some k \<Rightarrow>
                         (case send_via_resend rt k buyerEmail itemName personalizedEmail prov of
                            (Inl err, ev2) \<Rightarrow>
                              (Inr (respond 500 (ErrorJson ''Failed to send email'')),
                               ev @ ev2 @ [ConsoleError
                                 [LText ''Failed to send email via Resend:'', LError err]],
                               cache')
                          | (Inr resendResult, ev2) \<Rightarrow>
                              (case to_string rt buyerEmail of
                                 Inl e \<Rightarrow> (Inl e, ev @ ev2, cache')
                               | Inr addr \<Rightarrow>
                                   (case member ''id'' resendResult of
                                      Inl e \<Rightarrow> (Inl e, ev @ ev2, cache')
                                    | Inr resendId \<Rightarrow>
                                        (Inr (respond 200
                                           (SentJson (''Email sent to '' @ addr) resendId)),
                                         ev @ ev2, cache'))))))))"

text \<open>\<^verbatim>\<open>paypalWebhookHandler\<close> (lines 158-251): the outer \<^verbatim>\<open>catch\<close> turns any error
  thrown so far into the 500 catch-all response.\<close>

definition paypalWebhookHandler ::
  "'n runtime \<Rightarrow> string option \<Rightarrow> http_result \<Rightarrow> http_result \<Rightarrow> string option \<Rightarrow> 'n request
     \<Rightarrow> 'n response \<times> 'n effect list \<times> string option" where
  "paypalWebhookHandler rt key src prov cache req =
     (case webhook_try rt key src prov cache req of
        (Inl error, ev, cache') \<Rightarrow>
          (respond 500 (ErrorJson ''Internal Server Error''),
           ev @ [ConsoleError [LText ''Webhook error:'', LError error]], cache')
      | (Inr r, ev, cache') \<Rightarrow> (r, ev, cache'))"

section \<open>A process serving several requests\<close>

record 'n invocation =
  inv_request :: "'n request"
  inv_api_key :: "string option"
  inv_template_source :: http_result
  inv_provider :: http_result

text \<open>The module variable \<^verbatim>\<open>cachedEmailTemplate\<close> lives as long as the process: each
  invocation starts from the cache the previous one left.\<close>

fun serve ::
  "'n runtime \<Rightarrow> string option \<Rightarrow> 'n invocation list
     \<Rightarrow> ('n response \<times> 'n effect list) list \<times> string option" where
  "serve rt cache [] = ([], cache)"
| "serve rt cache (i # is) =
     (case paypalWebhookHandler rt (inv_api_key i) (inv_template_source i) (inv_provider i)
             cache (inv_request i) of
        (r, ev, cache') \<Rightarrow>
          (case serve rt cache' is of (rs, cache'') \<Rightarrow> ((r, ev) # rs, cache'')))"

fun is_template_fetch :: "'n effect \<Rightarrow> bool" where
  "is_template_fetch (FetchTemplate u) = True"
| "is_template_fetch e = False"

fun is_network_call :: "'n effect \<Rightarrow> bool" where
  "is_network_call (ConsoleError a) = False"
| "is_network_call e = True"

definition template_fetches :: "'n effect list \<Rightarrow> nat" where
  "template_fetches evs = length (filter is_template_fetch evs)"

definition email_sent :: "'n response \<Rightarrow> bool" where
  "email_sent r = (status r = 200 \<and> (case payload r of SentJson m i \<Rightarrow> True | _ \<Rightarrow> False))"

section \<open>The other handler variants of the repository\<close>

text \<open>
  Beside the cached handler above, the repository holds four more copies of the handler:
  \<^verbatim>\<open>src/pg.js\<close> lines 10-102, \<^verbatim>\<open>src/api/code.js\<close> lines 11-74,
  \<^verbatim>\<open>src/unnamed/part_000\<close> lines 3-63 and \<^verbatim>\<open>src/unnamed/part_001\<close> lines 59-106.
  They share the event-type test and the extraction of the order, the same text in each
  (\<^verbatim>\<open>src/pg.js\<close> 26-38, \<^verbatim>\<open>src/api/code.js\<close> 21-33, \<^verbatim>\<open>part_000\<close> 11-21),
  and differ in how they decode the body and in what they check around the two fetches.
\<close>

definition check_event :: "'n runtime \<Rightarrow> 'n jsval \<Rightarrow> 'n validated" where
  "check_event rt body =
     (case member ''event_type'' body of
        Inl e \<Rightarrow> Throws e
      | Inr event_type \<Rightarrow>
          (if event_type \<noteq> JStr ''PAYMENT.CAPTURE.COMPLETED''
           then Reply (respond 200 (MessageJson ''Ignored non-payment event''))
           else (case member ''resource'' body of
                   Inl e \<Rightarrow> Throws e
                 | Inr resource \<Rightarrow>
                     (if \<not> truthy rt (buyer_email_of resource)
                      then Reply (respond 400 (ErrorJson ''Buyer email not found in event''))
                      else Order (buyer_email_of resource) (item_name_of rt resource)))))"

text \<open>\<^verbatim>\<open>src/pg.js\<close> lines 18-23 and \<^verbatim>\<open>part_000\<close> line 9: a string body goes to
  \<^verbatim>\<open>JSON.parse\<close> with nothing around it, so its \<^verbatim>\<open>SyntaxError\<close> is thrown on.\<close>

definition parse_body_unguarded :: "'n runtime \<Rightarrow> 'n jsval \<Rightarrow> js_error + 'n jsval" where
  "parse_body_unguarded rt b =
     (case b of
        JStr s \<Rightarrow> (case json_parse rt s of None \<Rightarrow> Inl JsonSyntaxError | Some v \<Rightarrow> Inr v)
      | _ \<Rightarrow> Inr b)"

text \<open>\<^verbatim>\<open>src/api/code.js\<close> line 18, \<^verbatim>\<open>req.body || JSON.parse(req.body)\<close>: a truthy
  body, a non-empty string included, is taken as it is; a falsy one is converted to a
  string and decoded.\<close>

definition body_or_parse :: "'n runtime \<Rightarrow> 'n jsval \<Rightarrow> js_error + 'n jsval" where
  "body_or_parse rt b =
     (if truthy rt b then Inr b
      else (case to_string rt b of
              Inl e \<Rightarrow> Inl e
            | Inr s \<Rightarrow> (case json_parse rt s of None \<Rightarrow> Inl JsonSyntaxError | Some v \<Rightarrow> Inr v)))"

text \<open>The outer \<^verbatim>\<open>catch\<close>, the same in every variant.\<close>

fun catch_all :: "(js_error + 'n response) \<times> 'n effect list \<Rightarrow> 'n response \<times> 'n effect list" where
  "catch_all (Inl error, ev) =
     (respond 500 (ErrorJson ''Internal Server Error''),
      ev @ [ConsoleError [LText ''Webhook error:'', LError error]])"
| "catch_all (Inr r, ev) = (r, ev)"

text \<open>A template fetch that tests \<^verbatim>\<open>ok\<close> and throws the error \<open>err\<close> makes of the
  status (\<^verbatim>\<open>src/pg.js\<close> 45-47, \<^verbatim>\<open>part_000\<close> 26-30), and one that reads the text
  of whatever comes back (\<^verbatim>\<open>src/api/code.js\<close> line 38).\<close>

definition fetch_checked ::
  "string \<Rightarrow> (nat \<Rightarrow> js_error) \<Rightarrow> http_result \<Rightarrow> (js_error + string) \<times> 'n effect list" where
  "fetch_checked url err src =
     (case src of
        NetworkFailure \<Rightarrow> (Inl NetworkError, [FetchTemplate url])
      | HttpResponse ok st body \<Rightarrow>
          (if \<not> ok then (Inl (err st), [FetchTemplate url])
           else (case body of
                   None \<Rightarrow> (Inl BodyReadError, [FetchTemplate url])
                 | Some t \<Rightarrow> (Inr t, [FetchTemplate url]))))"

definition fetch_unchecked ::
  "string \<Rightarrow> http_result \<Rightarrow> (js_error + string) \<times> 'n effect list" where
  "fetch_unchecked url src =
     (case src of
        NetworkFailure \<Rightarrow> (Inl NetworkError, [FetchTemplate url])
      | HttpResponse ok st body \<Rightarrow>
          (case body of
             None \<Rightarrow> (Inl BodyReadError, [FetchTemplate url])
           | Some t \<Rightarrow> (Inr t, [FetchTemplate url])))"

definition PLACEHOLDER_EMAIL_URL :: string where
  "PLACEHOLDER_EMAIL_URL =
     ''https://raw.githubusercontent.com/YOUR_USERNAME/YOUR_REPO/main/email-template.html''"

text \<open>The success response, built the same way in every variant: the message converts the
  buyer's e-mail to a string, then \<^verbatim>\<open>id\<close> is read from the provider's answer.\<close>

definition sent_reply :: "'n runtime \<Rightarrow> 'n jsval \<Rightarrow> 'n jsval \<Rightarrow> js_error + 'n response" where
  "sent_reply rt buyerEmail result =
     (case to_string rt buyerEmail of
        Inl e \<Rightarrow> Inl e
      | Inr addr \<Rightarrow>
          (case member ''id'' result of
             Inl e \<Rightarrow> Inl e
           | Inr resendId \<Rightarrow> Inr (respond 200 (SentJson (''Email sent to '' @ addr) resendId))))"

text \<open>
  The dispatch of \<^verbatim>\<open>src/api/code.js\<close> (lines 46-63) and \<^verbatim>\<open>part_000\<close> (lines
  36-53): the key is not tested (an unset key prints as \<^verbatim>\<open>undefined\<close> in the header),
  the response's \<^verbatim>\<open>ok\<close> flag is not read, and the body is decoded whatever the status.
\<close>

definition send_unchecked ::
  "'n runtime \<Rightarrow> string option \<Rightarrow> 'n jsval \<Rightarrow> 'n jsval \<Rightarrow> string \<Rightarrow> http_result
     \<Rightarrow> (js_error + 'n jsval) \<times> 'n effect list" where
  "send_unchecked rt key buyerEmail itemName personalizedEmail prov =
     (case to_string rt itemName of
        Inl e \<Rightarrow> (Inl e, [])
      | Inr name \<Rightarrow>
          (let post = PostEmail
                 \<lparr>mail_authorization =
                    ''Bearer '' @ (case key of None \<Rightarrow> ''undefined'' | Some k \<Rightarrow> k),
                  mail_from = RESEND_EMAIL,
                  mail_to = buyerEmail,
                  mail_subject = ''Your '' @ name @ '' is ready!'',
                  mail_html = personalizedEmail\<rparr>
           in (case prov of
                 NetworkFailure \<Rightarrow> (Inl NetworkError, [post])
               | HttpResponse ok st body \<Rightarrow>
                   (case body of
                      None \<Rightarrow> (Inl BodyReadError, [post])
                    | Some answer \<Rightarrow>
                        (case json_parse rt answer of
                           None \<Rightarrow> (Inl JsonSyntaxError, [post])
                         | Some v \<Rightarrow> (Inr v, [post]))))))"

text \<open>The \<^verbatim>\<open>try\<close> block of \<^verbatim>\<open>src/pg.js\<close> lines 67-87: as in the cached handler, but
  the provider's text goes into the thrown error and is not logged on its own.\<close>

definition send_via_resend_v1 ::
  "'n runtime \<Rightarrow> string \<Rightarrow> 'n jsval \<Rightarrow> 'n jsval \<Rightarrow> string \<Rightarrow> http_result
     \<Rightarrow> (js_error + 'n jsval) \<times> 'n effect list" where
  "send_via_resend_v1 rt key buyerEmail itemName personalizedEmail prov =
     (case to_string rt itemName of
        Inl e \<Rightarrow> (Inl e, [])
      | Inr name \<Rightarrow>
          (let post = PostEmail
                 \<lparr>mail_authorization = ''Bearer '' @ key,
                  mail_from = RESEND_EMAIL,
                  mail_to = buyerEmail,
                  mail_subject = ''Your '' @ name @ '' is ready!'',
                  mail_html = personalizedEmail\<rparr>
           in (case prov of
                 NetworkFailure \<Rightarrow> (Inl NetworkError, [post])
               | HttpResponse ok st body \<Rightarrow>
                   (if \<not> ok
                    then (case body of
                            None \<Rightarrow> (Inl BodyReadError, [post])
                          | Some answer \<Rightarrow> (Inl (ResendApiErrorText st answer), [post]))
                    else (case body of
                            None \<Rightarrow> (Inl BodyReadError, [post])
                          | Some answer \<Rightarrow>
                              (case json_parse rt answer of
                                 None \<Rightarrow> (Inl JsonSyntaxError, [post])
                               | Some v \<Rightarrow> (Inr v, [post])))))))"

text \<open>\<^verbatim>\<open>paypalWebhookHandler\<close> of \<^verbatim>\<open>src/pg.js\<close> lines 10-102: no cache, the body
  decoded without a guard, both fetches checked and caught.\<close>

definition paypalWebhookHandler_v1 ::
  "'n runtime \<Rightarrow> string option \<Rightarrow> http_result \<Rightarrow> http_result \<Rightarrow> 'n request
     \<Rightarrow> 'n response \<times> 'n effect list" where
  "paypalWebhookHandler_v1 rt key src prov req =
     catch_all
       (if req_method req \<noteq> JStr ''POST''
        then (Inr (respond 405 (ErrorJson ''Method Not Allowed'')), [])
        else (case parse_body_unguarded rt (req_body req) of
                Inl e \<Rightarrow> (Inl e, [])
              | Inr body \<Rightarrow>
                  (case check_event rt body of
                     Reply r \<Rightarrow> (Inr r, [])
                   | Throws e \<Rightarrow> (Inl e, [])
                   | Order buyerEmail itemName \<Rightarrow>
                       (case fetch_checked GITHUB_EMAIL_URL GitHubFetchStatus src of
                          (Inl err, ev) \<Rightarrow>
                            (Inr (respond 500 (ErrorJson ''Failed to fetch email template'')),
                             ev @ [ConsoleError
                               [LText ''Failed to fetch email template:'', LError err]])
                        | (Inr emailTemplate, ev) \<Rightarrow>
                            (case personalize rt emailTemplate itemName buyerEmail of
                               Inl e \<Rightarrow> (Inl e, ev)
                             | Inr personalizedEmail \<Rightarrow>
                                 (case (if key = Some [] then None else key) of
                                    None \<Rightarrow>
                                      (Inr (respond 500
                                         (ErrorJson ''Resend API key not configured'')), ev)
                                  | Some k \<Rightarrow>
                                      (case send_via_resend_v1 rt k buyerEmail itemName
                                              personalizedEmail prov of
                                         (Inl err, ev2) \<Rightarrow>
                                           (Inr (respond 500
                                              (ErrorJson ''Failed to send email'')),
                                            ev @ ev2 @ [ConsoleError
                                              [LText ''Failed to send email via Resend:'',
                                               LError err]])
                                       | (Inr resendResult, ev2) \<Rightarrow>
                                           (case sent_reply rt buyerEmail resendResult of
                                              Inl e \<Rightarrow> (Inl e, ev @ ev2)
                                            | Inr r \<Rightarrow> (Inr r, ev @ ev2)))))))))"

text \<open>
  The two handlers without any inner \<^verbatim>\<open>try\<close>: \<^verbatim>\<open>handler\<close> of
  \<^verbatim>\<open>src/api/code.js\<close> (lines 11-74) and \<^verbatim>\<open>handler\<close> of \<^verbatim>\<open>part_000\<close> (lines 3-63).
  They differ in the decoding of the body and in the template fetch, given here as \<open>decode\<close>
  and \<open>fetch_template\<close>.
\<close>

definition handler_plain ::
  "('n jsval \<Rightarrow> js_error + 'n jsval) \<Rightarrow> (http_result \<Rightarrow> (js_error + string) \<times> 'n effect list)
     \<Rightarrow> 'n runtime \<Rightarrow> string option \<Rightarrow> http_result \<Rightarrow> http_result \<Rightarrow> 'n request
     \<Rightarrow> 'n response \<times> 'n effect list" where
  "handler_plain decode fetch_template rt key src prov req =
     catch_all
       (if req_method req \<noteq> JStr ''POST''
        then (Inr (respond 405 (ErrorJson ''Method Not Allowed'')), [])
        else (case decode (req_body req) of
                Inl e \<Rightarrow> (Inl e, [])
              | Inr body \<Rightarrow>
                  (case check_event rt body of
                     Reply r \<Rightarrow> (Inr r, [])
                   | Throws e \<Rightarrow> (Inl e, [])
                   | Order buyerEmail itemName \<Rightarrow>
                       (case fetch_template src of
                          (Inl e, ev) \<Rightarrow> (Inl e, ev)
                        | (Inr emailTemplate, ev) \<Rightarrow>
                            (case personalize rt emailTemplate itemName buyerEmail of
                               Inl e \<Rightarrow> (Inl e, ev)
                             | Inr personalizedEmail \<Rightarrow>
                                 (case send_unchecked rt key buyerEmail itemName
                                         personalizedEmail prov of
                                    (Inl e, ev2) \<Rightarrow> (Inl e, ev @ ev2)
                                  | (Inr result, ev2) \<Rightarrow>
                                      (case sent_reply rt buyerEmail result of
                                         Inl e \<Rightarrow> (Inl e, ev @ ev2)
                                       | Inr r \<Rightarrow> (Inr r, ev @ ev2))))))))"

definition handler_api_code ::
  "'n runtime \<Rightarrow> string option \<Rightarrow> http_result \<Rightarrow> http_result \<Rightarrow> 'n request
     \<Rightarrow> 'n response \<times> 'n effect list" where
  "handler_api_code rt =
     handler_plain (body_or_parse rt) (fetch_unchecked PLACEHOLDER_EMAIL_URL) rt"

definition handler_part_000 ::
  "'n runtime \<Rightarrow> string option \<Rightarrow> http_result \<Rightarrow> http_result \<Rightarrow> 'n request
     \<Rightarrow> 'n response \<times> 'n effect list" where
  "handler_part_000 rt =
     handler_plain (parse_body_unguarded rt) (fetch_checked GITHUB_EMAIL_URL TemplateFetchStatus) rt"

text \<open>
  \<^verbatim>\<open>sendEmail\<close> of \<^verbatim>\<open>part_001\<close> (lines 27-56): it throws on a missing key and on a
  response that is not \<^verbatim>\<open>ok\<close> (after logging its text), with no \<^verbatim>\<open>catch\<close> of its
  own.
\<close>

definition sendEmail ::
  "'n runtime \<Rightarrow> string option \<Rightarrow> 'n jsval \<Rightarrow> string \<Rightarrow> string \<Rightarrow> http_result
     \<Rightarrow> (js_error + 'n jsval) \<times> 'n effect list" where
  "sendEmail rt key to_addr subject html prov =
     (case (if key = Some [] then None else key) of
        None \<Rightarrow> (Inl KeyNotConfigured, [])
      | Some k \<Rightarrow>
          (let post = PostEmail
                 \<lparr>mail_authorization = ''Bearer '' @ k,
                  mail_from = RESEND_EMAIL,
                  mail_to = to_addr,
                  mail_subject = subject,
                  mail_html = html\<rparr>
           in (case prov of
                 NetworkFailure \<Rightarrow> (Inl NetworkError, [post])
               | HttpResponse ok st body \<Rightarrow>
                   (if \<not> ok
                    then (case body of
                            None \<Rightarrow> (Inl BodyReadError, [post])
                          | Some answer \<Rightarrow>
                              (Inl (ResendApiStatus st),
                               [post, ConsoleError [LText ''Resend API error response:'',
                                                    LText answer]]))
                    else (case body of
                            None \<Rightarrow> (Inl BodyReadError, [post])
                          | Some answer \<Rightarrow>
                              (case json_parse rt answer of
                                 None \<Rightarrow> (Inl JsonSyntaxError, [post])
                               | Some v \<Rightarrow> (Inr v, [post])))))))"

text \<open>
  \<^verbatim>\<open>paypalWebhookHandler\<close> of \<^verbatim>\<open>part_001\<close> (lines 59-106): the validation is that of
  the cached handler (lines 61-85, with the guarded decode) and so is
  \<^verbatim>\<open>getEmailTemplate\<close> (lines 11-24), but neither the template stage nor
  \<^verbatim>\<open>sendEmail\<close> is caught before the outer \<^verbatim>\<open>catch\<close>.
\<close>

definition paypalWebhookHandler_part_001 ::
  "'n runtime \<Rightarrow> string option \<Rightarrow> http_result \<Rightarrow> http_result \<Rightarrow> string option \<Rightarrow> 'n request
     \<Rightarrow> 'n response \<times> 'n effect list \<times> string option" where
  "paypalWebhookHandler_part_001 rt key src prov cache req =
     (case validate rt req of
        Reply r \<Rightarrow> (r, [], cache)
      | Throws e \<Rightarrow> (case catch_all (Inl e, []) of (r, ev) \<Rightarrow> (r, ev, cache))
      | Order buyerEmail itemName \<Rightarrow>
          (case getEmailTemplate src cache of
             (tmpl, ev, cache') \<Rightarrow>
               (case (case tmpl of
                        Inl e \<Rightarrow> (Inl e, ev)
                      | Inr emailTemplate \<Rightarrow>
                          (case personalize rt emailTemplate itemName buyerEmail of
                             Inl e \<Rightarrow> (Inl e, ev)
                           | Inr personalizedEmail \<Rightarrow>
                               (case to_string rt itemName of
                                  Inl e \<Rightarrow> (Inl e, ev)
                                | Inr name \<Rightarrow>
                                    (case sendEmail rt key buyerEmail
                                            (''Your '' @ name @ '' is ready!'')
                                            personalizedEmail prov of
                                       (Inl e, ev2) \<Rightarrow> (Inl e, ev @ ev2)
                                     | (Inr resendResult, ev2) \<Rightarrow>
                                         (case sent_reply rt buyerEmail resendResult of
                                            Inl e \<Rightarrow> (Inl e, ev @ ev2)
                                          | Inr r \<Rightarrow> (Inr r, ev @ ev2)))))) of
                  outcome \<Rightarrow> (case catch_all outcome of (r, ev') \<Rightarrow> (r, ev', cache')))))"

text \<open>Test doubles: a runtime that decodes the one provider answer of the specification's
  end-to-end scenario, and that scenario's request and collaborators.\<close>

definition provider_ok_body :: string where
  "provider_ok_body = ''{\"id\":\"em_123\"}''"

definition mock_runtime :: "nat runtime" where
  "mock_runtime =
     \<lparr>json_parse = (\<lambda>s. if s = provider_ok_body
                         then Some (JObj [(''id'', JStr ''em_123'')]) else None),
      number_falsy = (\<lambda>n. n = 0),
      number_to_string = (\<lambda>n. ''0'')\<rparr>"

definition sample_event :: "nat jsval" where
  "sample_event =
     JObj [(''event_type'', JStr ''PAYMENT.CAPTURE.COMPLETED''),
           (''resource'', JObj
              [(''payer'', JObj [(''email_address'', JStr ''buyer@x.com'')]),
               (''purchase_units'', JArr [JObj [(''items'', JArr
                  [JObj [(''name'', JStr ''E-book'')]])]])])]"

definition sample_request :: "nat request" where
  "sample_request = \<lparr>req_method = JStr ''POST'', req_body = sample_event\<rparr>"

definition provider_ok :: http_result where
  "provider_ok = HttpResponse True 200 (Some provider_ok_body)"

definition sample_invocation :: "string \<Rightarrow> nat invocation" where
  "sample_invocation t =
     \<lparr>inv_request = sample_request,
      inv_api_key = Some ''re_key'',
      inv_template_source = HttpResponse True 200 (Some t),
      inv_provider = provider_ok\<rparr>"

definition sample_template :: string where
  "sample_template = ''Item: {{itemName}} / To: {{buyerEmail}}''"

definition sample_event_without_units :: "nat jsval" where
  "sample_event_without_units =
     JObj [(''event_type'', JStr ''PAYMENT.CAPTURE.COMPLETED''),
           (''resource'', JObj
              [(''payer'', JObj [(''email_address'', JStr ''buyer@x.com'')])])]"

definition sample_mail :: "string \<Rightarrow> string \<Rightarrow> nat effect" where
  "sample_mail item html =
     PostEmail \<lparr>mail_authorization = ''Bearer re_key'',
                mail_from = RESEND_EMAIL,
                mail_to = JStr ''buyer@x.com'',
                mail_subject = ''Your '' @ item @ '' is ready!'',
                mail_html = html\<rparr>"

definition sample_sent :: "nat response" where
  "sample_sent = respond 200 (SentJson ''Email sent to buyer@x.com'' (JStr ''em_123''))"

text \<open>A provider that rejects the send with a JSON error document, and a runtime that
  decodes that document too.\<close>

definition provider_rejected_body :: string where
  "provider_rejected_body = ''{\"message\":\"invalid recipient\"}''"

definition provider_rejected :: http_result where
  "provider_rejected = HttpResponse False 422 (Some provider_rejected_body)"

definition mock_runtime_rejecting :: "nat runtime" where
  "mock_runtime_rejecting =
     \<lparr>json_parse = (\<lambda>s. if s = provider_ok_body
                         then Some (JObj [(''id'', JStr ''em_123'')])
                         else if s = provider_rejected_body
                         then Some (JObj [(''message'', JStr ''invalid recipient'')])
                         else None),
      number_falsy = (\<lambda>n. n = 0),
      number_to_string = (\<lambda>n. ''0'')\<rparr>"

definition malformed_request :: "nat request" where
  "malformed_request = \<lparr>req_method = JStr ''POST'', req_body = JStr ''{not json''\<rparr>"

section \<open>Validation: the early exits\<close>

lemma validate_reply:
  "validate rt req = Reply r \<Longrightarrow>
   paypalWebhookHandler rt key src prov cache req = (r, [], cache)"
  by (simp add: paypalWebhookHandler_def webhook_try_def)

lemma validate_throws:
  "validate rt req = Throws e \<Longrightarrow>
   paypalWebhookHandler rt key src prov cache req
   = (respond 500 (ErrorJson ''Internal Server Error''),
      [ConsoleError [LText ''Webhook error:'', LError e]], cache)"
  by (simp add: paypalWebhookHandler_def webhook_try_def)

lemma validate_method:
  "req_method req \<noteq> JStr ''POST'' \<Longrightarrow>
   validate rt req = Reply (respond 405 (ErrorJson ''Method Not Allowed''))"
  by (simp add: validate_def)

lemma validate_malformed:
  "req_method req = JStr ''POST'' \<Longrightarrow> parse_body rt (req_body req) = None \<Longrightarrow>
   validate rt req = Reply (respond 400 (ErrorJson ''Invalid JSON body''))"
  by (simp add: validate_def)

lemma validate_other_event:
  "req_method req = JStr ''POST'' \<Longrightarrow> parse_body rt (req_body req) = Some body \<Longrightarrow>
   member ''event_type'' body = Inr event_type \<Longrightarrow>
   event_type \<noteq> JStr ''PAYMENT.CAPTURE.COMPLETED'' \<Longrightarrow>
   validate rt req = Reply (respond 200 (MessageJson ''Ignored non-payment event''))"
  by (simp add: validate_def)

lemma member_resource:
  "member ''event_type'' body = Inr event_type \<Longrightarrow>
   member ''resource'' body = Inr (get_prop ''resource'' body)"
  by (simp add: member_def split: if_splits)

lemma validate_completed:
  assumes "req_method req = JStr ''POST''" and "parse_body rt (req_body req) = Some body"
    and "member ''event_type'' body = Inr (JStr ''PAYMENT.CAPTURE.COMPLETED'')"
  shows "validate rt req =
     (if \<not> truthy rt (buyer_email_of (get_prop ''resource'' body))
      then Reply (respond 400 (ErrorJson ''Buyer email not found in event''))
      else Order (buyer_email_of (get_prop ''resource'' body))
             (item_name_of rt (get_prop ''resource'' body)))"
  using assms member_resource[OF assms(3)] by (simp add: validate_def)

lemma null_payload_internal_error:
  "req_method req = JStr ''POST'' \<Longrightarrow> parse_body rt (req_body req) = Some body \<Longrightarrow>
   nullish body \<Longrightarrow>
   paypalWebhookHandler rt key src prov cache req
   = (respond 500 (ErrorJson ''Internal Server Error''),
      [ConsoleError [LText ''Webhook error:'', LError TypeError]], cache)"
  by (simp add: paypalWebhookHandler_def webhook_try_def validate_def member_def)

lemmas sample_defs =
  provider_ok_body_def mock_runtime_def sample_request_def sample_event_def
  sample_invocation_def provider_ok_def
  sample_template_def sample_event_without_units_def sample_mail_def sample_sent_def
  parse_body_def member_def nullish_def opt_member_def buyer_email_of_def item_name_path_def
  item_name_of_def js_or_def respond_def

lemmas handler_defs =
  paypalWebhookHandler_def webhook_try_def validate_def getEmailTemplate_def template_cached_def
  personalize_def personalize_str_def js_replace_all_def item_marker_def email_marker_def
  send_via_resend_def GITHUB_EMAIL_URL_def RESEND_EMAIL_def template_fetches_def email_sent_def

text \<open>
  C4. A request whose method is not POST is answered 405 with
  \<^verbatim>\<open>{error: "Method Not Allowed"}\<close>; the handler has no effect at all, so neither the
  template source nor the e-mail provider is called, and the cache is as it was.
\<close>

theorem non_post_method_not_allowed:
  assumes "req_method req \<noteq> JStr ''POST''"
  shows "paypalWebhookHandler rt key src prov cache req
         = (respond 405 (ErrorJson ''Method Not Allowed''), [], cache)"
  using validate_reply[OF validate_method[OF assms]] .

theorem non_post_method_not_allowed_witness:
  "JStr ''GET'' \<noteq> (JStr ''POST'' :: nat jsval)
   \<and> paypalWebhookHandler mock_runtime (Some ''re_key'') NetworkFailure provider_ok None
        \<lparr>req_method = JStr ''GET'', req_body = sample_event\<rparr>
      = (respond 405 (ErrorJson ''Method Not Allowed''), [], None)"
  using non_post_method_not_allowed[of "\<lparr>req_method = JStr ''GET'', req_body = sample_event\<rparr>"
      mock_runtime "Some ''re_key''" NetworkFailure provider_ok None]
  by simp

text \<open>
  In the cached handler a POST request whose body is a string that \<^verbatim>\<open>JSON.parse\<close>
  rejects is answered 400 with \<^verbatim>\<open>{error: "Invalid JSON body"}\<close>: the decode failure is
  caught where it happens and does not reach the 500 catch-all.
\<close>

lemma malformed_body_rejected:
  assumes "req_method req = JStr ''POST''" and "req_body req = JStr s"
    and "json_parse rt s = None"
  shows "paypalWebhookHandler rt key src prov cache req
         = (respond 400 (ErrorJson ''Invalid JSON body''), [], cache)
       \<and> status (fst (paypalWebhookHandler rt key src prov cache req)) \<noteq> 500"
proof -
  have "parse_body rt (req_body req) = None"
    using assms(2,3) by (simp add: parse_body_def)
  from validate_reply[OF validate_malformed[OF assms(1) this]]
  show ?thesis by (simp add: respond_def)
qed

lemma malformed_body_rejected_example:
  "json_parse mock_runtime ''{not json'' = None
   \<and> paypalWebhookHandler mock_runtime (Some ''re_key'') NetworkFailure provider_ok None
        \<lparr>req_method = JStr ''POST'', req_body = JStr ''{not json''\<rparr>
      = (respond 400 (ErrorJson ''Invalid JSON body''), [], None)"
proof -
  have h: "json_parse mock_runtime ''{not json'' = None"
    by (simp add: mock_runtime_def provider_ok_body_def)
  show ?thesis
    using h malformed_body_rejected[of "\<lparr>req_method = JStr ''POST'', req_body = JStr ''{not json''\<rparr>"
      "''{not json''" mock_runtime "Some ''re_key''" NetworkFailure provider_ok None]
    by simp
qed

lemmas variant_defs =
  paypalWebhookHandler_v1_def handler_api_code_def handler_part_000_def handler_plain_def
  paypalWebhookHandler_part_001_def check_event_def parse_body_unguarded_def
  body_or_parse_def fetch_checked_def fetch_unchecked_def sent_reply_def send_unchecked_def
  send_via_resend_v1_def sendEmail_def provider_rejected_def provider_rejected_body_def
  mock_runtime_rejecting_def malformed_request_def

text \<open>
  C7. The claim holds in the cached handler only. For the POST request with the body
  \<^verbatim>\<open>{not json\<close>, the handler of \<^verbatim>\<open>src/pg.js\<close> lines 10-102 and that of
  \<^verbatim>\<open>part_000\<close>, which call \<^verbatim>\<open>JSON.parse\<close> unguarded (in \<^verbatim>\<open>src/pg.js\<close> under the
  comment "Parse body safely"), answer with the 500 catch-all, and the handler of
  \<^verbatim>\<open>src/api/code.js\<close>, which never decodes a non-empty string, answers 200 with the
  ignored-event message; none of them answers 400.
\<close>

theorem malformed_body_unguarded_variants:
  "paypalWebhookHandler_v1 mock_runtime (Some ''re_key'') NetworkFailure provider_ok
     malformed_request
   = (respond 500 (ErrorJson ''Internal Server Error''),
      [ConsoleError [LText ''Webhook error:'', LError JsonSyntaxError]])
   \<and> handler_part_000 mock_runtime (Some ''re_key'') NetworkFailure provider_ok
       malformed_request
     = (respond 500 (ErrorJson ''Internal Server Error''),
        [ConsoleError [LText ''Webhook error:'', LError JsonSyntaxError]])
   \<and> handler_api_code mock_runtime (Some ''re_key'') NetworkFailure provider_ok
       malformed_request
     = (respond 200 (MessageJson ''Ignored non-payment event''), [])
   \<and> fst (paypalWebhookHandler mock_runtime (Some ''re_key'') NetworkFailure provider_ok None
         malformed_request)
     = respond 400 (ErrorJson ''Invalid JSON body'')"
  by (simp add: variant_defs handler_defs sample_defs)

text \<open>
  C5. A POST request whose decoded payload answers the read of \<^verbatim>\<open>event_type\<close> with
  anything but the string \<^verbatim>\<open>PAYMENT.CAPTURE.COMPLETED\<close> (a missing property included) is
  answered 200 with \<^verbatim>\<open>{message: "Ignored non-payment event"}\<close>; the handler has no
  effect, so neither the template stage nor the dispatch stage is entered.
\<close>

theorem other_event_ignored:
  assumes "req_method req = JStr ''POST''" and "parse_body rt (req_body req) = Some body"
    and "member ''event_type'' body = Inr event_type"
    and "event_type \<noteq> JStr ''PAYMENT.CAPTURE.COMPLETED''"
  shows "paypalWebhookHandler rt key src prov cache req
         = (respond 200 (MessageJson ''Ignored non-payment event''), [], cache)"
  using validate_reply[OF validate_other_event[OF assms]] .

theorem other_event_ignored_witness:
  "parse_body mock_runtime (JObj [(''event_type'', JStr ''BILLING.PLAN.CREATED'')])
     = Some (JObj [(''event_type'', JStr ''BILLING.PLAN.CREATED'')])
   \<and> member ''event_type'' (JObj [(''event_type'', JStr ''BILLING.PLAN.CREATED'')])
     = Inr (JStr ''BILLING.PLAN.CREATED'' :: nat jsval)
   \<and> paypalWebhookHandler mock_runtime (Some ''re_key'') NetworkFailure provider_ok None
        \<lparr>req_method = JStr ''POST'',
         req_body = JObj [(''event_type'', JStr ''BILLING.PLAN.CREATED'')]\<rparr>
      = (respond 200 (MessageJson ''Ignored non-payment event''), [], None)"
proof -
  let ?b = "JObj [(''event_type'', JStr ''BILLING.PLAN.CREATED'')] :: nat jsval"
  have p: "parse_body mock_runtime ?b = Some ?b" by (simp add: parse_body_def)
  have m: "member ''event_type'' ?b = Inr (JStr ''BILLING.PLAN.CREATED'')"
    by (simp add: member_def nullish_def)
  show ?thesis
    using p m other_event_ignored[of "\<lparr>req_method = JStr ''POST'', req_body = ?b\<rparr>"
        mock_runtime ?b "JStr ''BILLING.PLAN.CREATED''" "Some ''re_key''" NetworkFailure
        provider_ok None]
    by simp
qed

text \<open>
  C6. A payment-completed payload in which the chain
  \<^verbatim>\<open>resource?.payer?.email_address\<close> is falsy, as it is when the address or any
  object on the way to it is absent (the chain is then \<^verbatim>\<open>undefined\<close>), is answered
  400 with \<^verbatim>\<open>{error: "Buyer email not found in event"}\<close>; the handler has no effect,
  so the e-mail provider is never called.
\<close>

theorem missing_buyer_email_rejected:
  assumes "req_method req = JStr ''POST''" and "parse_body rt (req_body req) = Some body"
    and "member ''event_type'' body = Inr (JStr ''PAYMENT.CAPTURE.COMPLETED'')"
    and "\<not> truthy rt (buyer_email_of (get_prop ''resource'' body))"
  shows "paypalWebhookHandler rt key src prov cache req
         = (respond 400 (ErrorJson ''Buyer email not found in event''), [], cache)"
proof -
  have "validate rt req = Reply (respond 400 (ErrorJson ''Buyer email not found in event''))"
    using validate_completed[OF assms(1-3)] assms(4) by simp
  then show ?thesis by (rule validate_reply)
qed

theorem missing_buyer_email_rejected_witness:
  "buyer_email_of (get_prop ''resource''
      (JObj [(''event_type'', JStr ''PAYMENT.CAPTURE.COMPLETED''),
             (''resource'', JObj [(''payer'', JObj [])])] :: nat jsval)) = JUndefined
   \<and> \<not> truthy mock_runtime (buyer_email_of (get_prop ''resource''
      (JObj [(''event_type'', JStr ''PAYMENT.CAPTURE.COMPLETED''),
             (''resource'', JObj [(''payer'', JObj [])])])))
   \<and> paypalWebhookHandler mock_runtime (Some ''re_key'') NetworkFailure provider_ok None
        \<lparr>req_method = JStr ''POST'',
         req_body = JObj [(''event_type'', JStr ''PAYMENT.CAPTURE.COMPLETED''),
                          (''resource'', JObj [(''payer'', JObj [])])]\<rparr>
      = (respond 400 (ErrorJson ''Buyer email not found in event''), [], None)"
proof -
  let ?b = "JObj [(''event_type'', JStr ''PAYMENT.CAPTURE.COMPLETED''),
                  (''resource'', JObj [(''payer'', JObj [])])] :: nat jsval"
  have p: "parse_body mock_runtime ?b = Some ?b" by (simp add: parse_body_def)
  have m: "member ''event_type'' ?b = Inr (JStr ''PAYMENT.CAPTURE.COMPLETED'')"
    by (simp add: member_def nullish_def)
  have e: "buyer_email_of (get_prop ''resource'' ?b) = JUndefined"
    by (simp add: buyer_email_of_def opt_member_def nullish_def)
  then have "\<not> truthy mock_runtime (buyer_email_of (get_prop ''resource'' ?b))"
    by simp
  then show ?thesis
    using e missing_buyer_email_rejected[of "\<lparr>req_method = JStr ''POST'', req_body = ?b\<rparr>"
        mock_runtime ?b "Some ''re_key''" NetworkFailure provider_ok None] p m
    by simp
qed

section \<open>Properties of the substitution\<close>

text \<open>A replacement text without a dollar sign is inserted as it is, whatever surrounds
  the match.\<close>

lemma get_substitution_plain:
  "CHR ''$'' \<notin> set v \<Longrightarrow> get_substitution m bef aft v = v"
  by (induction m bef aft v rule: get_substitution.induct) auto

lemma replace_global_match:
  "p \<noteq> [] \<Longrightarrow> replace_global p v bef (p @ b) = get_substitution p bef b v @ replace_global p v (bef @ p) b"
  by (cases p) auto

lemma replace_global_plain_ctx:
  assumes "CHR ''$'' \<notin> set v"
  shows "replace_global p v bef s = replace_global p v bef' s"
  using assms
proof (induction s arbitrary: bef bef' rule: length_induct)
  case (1 s)
  show ?case
  proof (cases s)
    case Nil then show ?thesis by simp
  next
    case (Cons c cs)
    show ?thesis
    proof (cases "p \<noteq> [] \<and> prefix p (c # cs)")
      case True
      then have len: "length (drop (length p) (c # cs)) < length s"
        using Cons by (cases p) auto
      from 1(1) len 1(2)
      have "replace_global p v (bef @ p) (drop (length p) (c # cs))
            = replace_global p v (bef' @ p) (drop (length p) (c # cs))"
        by blast
      with True Cons 1(2) show ?thesis
        by (simp add: get_substitution_plain)
    next
      case False
      from 1(1) Cons 1(2)
      have "replace_global p v (bef @ [c]) cs = replace_global p v (bef' @ [c]) cs"
        by simp
      with False Cons show ?thesis by auto
    qed
  qed
qed

lemma no_straddle:
  assumes no: "no_overlap p w" and np: "\<not> prefix p a" and pre: "prefix p (a @ w @ b)"
  shows "a = []"
proof (rule ccontr)
  assume ane: "a \<noteq> []"
  from pre np obtain r where r: "p = a @ r" "prefix r (w @ b)"
    by (auto simp: prefix_append)
  from np r have rne: "r \<noteq> []" by auto
  from r ane have rp: "r \<noteq> p" by auto
  have "suffix r p" using r by (simp add: suffix_def)
  with no rne rp have nr: "\<not> prefix r w" "\<not> prefix w r"
    by (auto simp: no_overlap_def)
  from r(2) have "prefix r w \<or> prefix w r"
    by (auto simp: prefix_append)
  with nr show False by blast
qed

lemma replace_global_split:
  assumes v: "CHR ''$'' \<notin> set v" and no: "no_overlap p w"
    and base: "\<And>bef. replace_global p v bef (w @ b) = x @ replace_global p v bef b"
  shows "replace_global p v bef (a @ w @ b)
         = replace_global p v bef a @ x @ replace_global p v bef b"
proof (induction a arbitrary: bef rule: length_induct)
  case (1 a)
  show ?case
  proof (cases a)
    case Nil
    then show ?thesis using base by simp
  next
    case (Cons c cs)
    show ?thesis
    proof (cases "p \<noteq> [] \<and> prefix p a")
      case True
      then obtain a' where a': "a = p @ a'" and pne: "p \<noteq> []" by (auto simp: prefix_def)
      then have "length a' < length a" by simp
      with 1 have ih: "replace_global p v (bef @ p) (a' @ w @ b)
         = replace_global p v (bef @ p) a' @ x @ replace_global p v (bef @ p) b"
        by blast
      have "replace_global p v bef (a @ w @ b)
            = v @ replace_global p v (bef @ p) (a' @ w @ b)"
        using replace_global_match[OF pne, of v bef "a' @ w @ b"] a'
        by (simp add: get_substitution_plain[OF v])
      moreover have "replace_global p v bef a = v @ replace_global p v (bef @ p) a'"
        using replace_global_match[OF pne, of v bef "a'"] a'
        by (simp add: get_substitution_plain[OF v])
      ultimately show ?thesis
        using ih replace_global_plain_ctx[OF v, of p "bef @ p" b bef] by simp
    next
      case False
      have "\<not> (p \<noteq> [] \<and> prefix p (a @ w @ b))"
        using no_straddle[OF no _ _, of a b] False Cons by auto
      then have "replace_global p v bef (a @ w @ b)
                 = c # replace_global p v (bef @ [c]) (cs @ w @ b)"
        using Cons by auto
      moreover have "replace_global p v bef a = c # replace_global p v (bef @ [c]) cs"
        using False Cons by auto
      moreover have "replace_global p v (bef @ [c]) (cs @ w @ b)
         = replace_global p v (bef @ [c]) cs @ x @ replace_global p v (bef @ [c]) b"
        using 1 Cons by simp
      ultimately show ?thesis
        using replace_global_plain_ctx[OF v, of p "bef @ [c]" b bef] by simp
    qed
  qed
qed

lemma replace_global_occurrence:
  assumes v: "CHR ''$'' \<notin> set v" and no: "no_overlap p p" and pne: "p \<noteq> []"
  shows "replace_global p v bef (a @ p @ b)
         = replace_global p v bef a @ v @ replace_global p v bef b"
proof (rule replace_global_split[OF v no])
  fix bef'
  show "replace_global p v bef' (p @ b) = v @ replace_global p v bef' b"
    using replace_global_match[OF pne, of v bef' b]
      replace_global_plain_ctx[OF v, of p "bef' @ p" b bef']
    by (simp add: get_substitution_plain[OF v])
qed

lemma replace_global_skip:
  assumes v: "CHR ''$'' \<notin> set v" and nm: "no_match_inside p w" and suf: "suffix r w"
  shows "replace_global p v bef (r @ b) = r @ replace_global p v bef b"
  using suf
proof (induction r arbitrary: bef)
  case Nil
  then show ?case by simp
next
  case (Cons c r)
  from Cons.prems nm have "\<not> prefix p (c # r)" "\<not> prefix (c # r) p"
    by (auto simp: no_match_inside_def)
  then have "\<not> prefix p ((c # r) @ b)"
    unfolding prefix_append by (auto simp: prefix_def)
  then have "replace_global p v bef ((c # r) @ b) = c # replace_global p v (bef @ [c]) (r @ b)"
    by auto
  moreover have "suffix r w" using Cons.prems by (rule suffix_ConsD)
  ultimately show ?case
    using Cons.IH[of "bef @ [c]"] replace_global_plain_ctx[OF v, of p "bef @ [c]" b bef]
    by simp
qed

lemma replace_global_inert:
  assumes v: "CHR ''$'' \<notin> set v" and no: "no_overlap p w" and nm: "no_match_inside p w"
  shows "replace_global p v bef (a @ w @ b)
         = replace_global p v bef a @ w @ replace_global p v bef b"
  by (rule replace_global_split[OF v no]) (rule replace_global_skip[OF v nm suffix_order.refl])




lemma item_marker_no_self_overlap: "no_overlap item_marker item_marker"
  by (simp add: no_overlap_def item_marker_def)

lemma email_marker_no_self_overlap: "no_overlap email_marker email_marker"
  by (simp add: no_overlap_def email_marker_def)



lemma item_marker_shape:
  "item_marker = CHR ''{'' # ''{itemName}}''" "last item_marker = CHR ''}''" "item_marker \<noteq> []"
  by (simp_all add: item_marker_def)

lemma email_marker_shape:
  "email_marker = CHR ''{'' # ''{buyerEmail}}''" "last email_marker = CHR ''}''" "email_marker \<noteq> []"
  by (simp_all add: email_marker_def)



lemma markers_no_overlap:
  "no_overlap item_marker email_marker" "no_overlap email_marker item_marker"
  "no_match_inside item_marker email_marker" "no_match_inside email_marker item_marker"
  by (simp_all add: no_overlap_def no_match_inside_def item_marker_def email_marker_def)

lemma markers_no_dollar:
  "CHR ''$'' \<notin> set item_marker" "CHR ''$'' \<notin> set email_marker"
  by (simp_all add: item_marker_def email_marker_def)

lemma nested_email_marker_eq:
  assumes "CHR ''$'' \<notin> set x" "CHR ''$'' \<notin> set y" "CHR ''$'' \<notin> set e"
  shows "personalize_str (a @ item_marker @ b) (x @ email_marker @ y) e
    = js_replace_all email_marker e (js_replace_all item_marker (x @ email_marker @ y) a @ x)
      @ e @ js_replace_all email_marker e (y @ js_replace_all item_marker (x @ email_marker @ y) b)"
proof -
  let ?i = "x @ email_marker @ y"
  have i: "CHR ''$'' \<notin> set ?i" using assms markers_no_dollar by simp
  have "js_replace_all item_marker ?i (a @ item_marker @ b)
        = (js_replace_all item_marker ?i a @ x) @ email_marker @ (y @ js_replace_all item_marker ?i b)"
    unfolding js_replace_all_def
    using replace_global_occurrence[OF i item_marker_no_self_overlap item_marker_shape(3)]
    by simp
  then show ?thesis
    unfolding personalize_str_def js_replace_all_def
    using replace_global_occurrence[OF assms(3) email_marker_no_self_overlap email_marker_shape(3),
        of "[]" "replace_global item_marker ?i [] a @ x" "y @ replace_global item_marker ?i [] b"]
    by simp
qed

lemma nested_item_marker_eq:
  assumes "CHR ''$'' \<notin> set x" "CHR ''$'' \<notin> set y" "CHR ''$'' \<notin> set i"
  shows "personalize_str (a @ email_marker @ b) i (x @ item_marker @ y)
    = js_replace_all email_marker (x @ item_marker @ y) (js_replace_all item_marker i a)
      @ x @ item_marker @ y
      @ js_replace_all email_marker (x @ item_marker @ y) (js_replace_all item_marker i b)"
proof -
  let ?e = "x @ item_marker @ y"
  have e: "CHR ''$'' \<notin> set ?e" using assms markers_no_dollar by simp
  have "js_replace_all item_marker i (a @ email_marker @ b)
        = js_replace_all item_marker i a @ email_marker @ js_replace_all item_marker i b"
    unfolding js_replace_all_def
    by (rule replace_global_inert[OF assms(3) markers_no_overlap(1) markers_no_overlap(3)])
  then show ?thesis
    unfolding personalize_str_def js_replace_all_def
    using replace_global_occurrence[OF e email_marker_no_self_overlap email_marker_shape(3)]
    by simp
qed

lemma spec_example_renders:
  "personalize_str ''Hi {{buyerEmail}}, your {{itemName}} is ready, {{buyerEmail}}!''
     ''Widget'' ''a@b.com''
   = ''Hi a@b.com, your Widget is ready, a@b.com!''"
  by (simp add: personalize_str_def js_replace_all_def item_marker_def email_marker_def)




text \<open>
  For values without a dollar sign the item name is substituted first and nothing is
  escaped: where the template has \<^verbatim>\<open>{{itemName}}\<close> and the item name is
  \<open>x @ {{buyerEmail}} @ y\<close>, the rendered string has the buyer's e-mail between \<open>x\<close> and
  \<open>y\<close>; where the template has \<^verbatim>\<open>{{buyerEmail}}\<close> and the e-mail is
  \<open>x @ {{itemName}} @ y\<close>, the rendered string has that e-mail with its
  \<^verbatim>\<open>{{itemName}}\<close> left as it is.
\<close>

lemma nested_markers:
  assumes "CHR ''$'' \<notin> set x" and "CHR ''$'' \<notin> set y" and "CHR ''$'' \<notin> set v"
  shows "personalize_str (a @ item_marker @ b) (x @ email_marker @ y) v
         = js_replace_all email_marker v
             (js_replace_all item_marker (x @ email_marker @ y) a @ x)
           @ v
           @ js_replace_all email_marker v
               (y @ js_replace_all item_marker (x @ email_marker @ y) b)
       \<and> personalize_str (a @ email_marker @ b) v (x @ item_marker @ y)
         = js_replace_all email_marker (x @ item_marker @ y) (js_replace_all item_marker v a)
           @ x @ item_marker @ y
           @ js_replace_all email_marker (x @ item_marker @ y) (js_replace_all item_marker v b)"
  using nested_email_marker_eq[OF assms] nested_item_marker_eq[OF assms] by simp

lemma nested_markers_example:
  "CHR ''$'' \<notin> set ''Book '' \<and> CHR ''$'' \<notin> set '' Ed.'' \<and> CHR ''$'' \<notin> set ''a@b.com''
   \<and> personalize_str (''Item: '' @ item_marker @ ''.'') (''Book '' @ email_marker @ '' Ed.'')
        ''a@b.com''
      = ''Item: Book a@b.com Ed..''
   \<and> personalize_str (''To: '' @ email_marker @ ''.'') ''a@b.com''
        (''Book '' @ item_marker @ '' Ed.'')
      = ''To: Book {{itemName}} Ed..''"
proof -
  have d: "CHR ''$'' \<notin> set ''Book ''" "CHR ''$'' \<notin> set '' Ed.''" "CHR ''$'' \<notin> set ''a@b.com''"
    by simp_all
  have r: "js_replace_all email_marker ''a@b.com''
             (js_replace_all item_marker (''Book '' @ email_marker @ '' Ed.'') ''Item: '' @ ''Book '')
           = ''Item: Book ''"
     "js_replace_all email_marker ''a@b.com''
             ('' Ed.'' @ js_replace_all item_marker (''Book '' @ email_marker @ '' Ed.'') ''.'')
           = '' Ed..''"
     "js_replace_all email_marker (''Book '' @ item_marker @ '' Ed.'')
             (js_replace_all item_marker ''a@b.com'' ''To: '') = ''To: ''"
     "js_replace_all email_marker (''Book '' @ item_marker @ '' Ed.'')
             (js_replace_all item_marker ''a@b.com'' ''.'') = ''.''"
    by (simp_all add: js_replace_all_def item_marker_def email_marker_def)
  show ?thesis
    using d nested_markers[OF d, of "''Item: ''" "''.''"] nested_markers[OF d, of "''To: ''" "''.''"] r
    by (simp add: item_marker_def)
qed

text \<open>
  C10. The claim fails where the buyer's e-mail holds a dollar pattern: the code hands the
  e-mail to \<^verbatim>\<open>replace\<close> as the replacement string, and \<^verbatim>\<open>replace\<close> expands
  \<^verbatim>\<open>$&\<close> to the matched marker. With the template \<^verbatim>\<open>{{itemName}}\<close>, the item name
  \<^verbatim>\<open>{{buyerEmail}}\<close> and the e-mail \<^verbatim>\<open>a$&b@x.com\<close>, the marker nested in the item
  name is not replaced by the buyer's e-mail: it comes back inside the output.
\<close>

theorem dollar_pattern_keeps_nested_marker:
  "personalize_str ''{{itemName}}'' ''{{buyerEmail}}'' ''a$&b@x.com''
     = ''a{{buyerEmail}}b@x.com''
   \<and> personalize_str ''{{itemName}}'' ''{{buyerEmail}}'' ''a$&b@x.com'' \<noteq> ''a$&b@x.com''"
  by (simp add: personalize_str_def js_replace_all_def item_marker_def email_marker_def)

section \<open>The template stage and the dispatch stage\<close>

lemma getEmailTemplate_hit:
  "t \<noteq> [] \<Longrightarrow> getEmailTemplate src (Some t) = (Inr t, [], Some t)"
  by (simp add: getEmailTemplate_def template_cached_def)

lemma getEmailTemplate_miss_ok:
  "\<not> template_cached cache \<Longrightarrow>
   getEmailTemplate (HttpResponse True st (Some t)) cache
   = (Inr t, [FetchTemplate GITHUB_EMAIL_URL], Some t)"
  by (simp add: getEmailTemplate_def)

lemma getEmailTemplate_miss_failed:
  "\<not> template_cached cache \<Longrightarrow> fetch_failed src \<Longrightarrow>
   \<exists>err. getEmailTemplate src cache = (Inl err, [FetchTemplate GITHUB_EMAIL_URL], cache)"
  by (auto simp: getEmailTemplate_def fetch_failed_def split: http_result.splits)

lemma getEmailTemplate_fetches:
  "getEmailTemplate src cache = (res, ev, cache') \<Longrightarrow>
   ev = (if template_cached cache then [] else [FetchTemplate GITHUB_EMAIL_URL])"
  by (auto simp: getEmailTemplate_def template_cached_def
      split: http_result.splits option.splits if_splits)

lemma send_via_resend_effects:
  "send_via_resend rt k be it html prov = (res, ev2) \<Longrightarrow> filter is_template_fetch ev2 = []"
  by (auto simp: send_via_resend_def Let_def split: sum.splits http_result.splits option.splits if_splits)

lemma handler_order:
  fixes rt :: "'n runtime" and ev :: "'n effect list"
  assumes "validate rt req = Order be it" and "getEmailTemplate src cache = (res, ev, cache')"
  shows "snd (snd (paypalWebhookHandler rt key src prov cache req)) = cache'"
    and "template_fetches (fst (snd (paypalWebhookHandler rt key src prov cache req)))
         = template_fetches ev"
  using assms send_via_resend_effects[of rt _ be it _ prov]
  by (auto simp: paypalWebhookHandler_def webhook_try_def template_fetches_def
      split: sum.splits option.splits prod.splits if_splits)

lemma validate_reply_not_sent:
  "validate rt req = Reply r \<Longrightarrow> \<not> email_sent r"
  by (auto simp: validate_def email_sent_def respond_def split: if_splits option.splits sum.splits)

lemma sent_validated:
  fixes rt :: "'n runtime"
  assumes "email_sent (fst (paypalWebhookHandler rt key src prov cache req))"
  shows "\<exists>be it t (ev :: 'n effect list) cache'. validate rt req = Order be it
           \<and> getEmailTemplate src cache = (Inr t, ev, cache')"
proof (cases "validate rt req")
  case (Reply r)
  with assms validate_reply_not_sent[OF Reply] show ?thesis
    by (simp add: paypalWebhookHandler_def webhook_try_def)
next
  case (Throws e)
  with assms show ?thesis
    by (simp add: paypalWebhookHandler_def webhook_try_def email_sent_def respond_def)
next
  case (Order be it)
  obtain res and ev :: "'n effect list" and cache'
    where g: "getEmailTemplate src cache = (res, ev, cache')"
    by (cases "getEmailTemplate src cache :: (js_error + string) \<times> 'n effect list \<times> string option") auto
  show ?thesis
  proof (cases res)
    case (Inl err)
    with assms Order g show ?thesis
      by (simp add: paypalWebhookHandler_def webhook_try_def email_sent_def respond_def)
  next
    case (Inr t)
    with Order g show ?thesis by blast
  qed
qed


lemma template_fetches_append:
  "template_fetches (a @ b) = template_fetches a + template_fetches b"
  by (simp add: template_fetches_def)

lemma two_invocations_one_fetch:
  fixes rt :: "'n runtime"
  assumes run: "serve rt None [i1, i2] = ([(r1, ev1), (r2, ev2)], c)"
    and s1: "email_sent r1" and s2: "email_sent r2"
    and src: "inv_template_source i1 = HttpResponse ok st (Some t)" and t: "t \<noteq> []"
  shows "template_fetches (ev1 @ ev2) = 1"
proof -
  let ?h1 = "paypalWebhookHandler rt (inv_api_key i1) (inv_template_source i1)
               (inv_provider i1) None (inv_request i1)"
  obtain c1 where h1: "?h1 = (r1, ev1, c1)"
    and h2: "paypalWebhookHandler rt (inv_api_key i2) (inv_template_source i2)
               (inv_provider i2) c1 (inv_request i2) = (r2, ev2, c)"
    using run by (auto split: prod.splits)
  from s1 h1 have "email_sent (fst ?h1)" by simp
  from sent_validated[OF this]
  obtain be it t' and ev :: "'n effect list" and c1'
    where v1: "validate rt (inv_request i1) = Order be it"
      and g1: "getEmailTemplate (inv_template_source i1) None = (Inr t', ev, c1')"
    by blast
  from g1 src have g1': "t' = t" "ev = [FetchTemplate GITHUB_EMAIL_URL]" "c1' = Some t"
    by (auto simp: getEmailTemplate_def template_cached_def split: if_splits)
  from handler_order[OF v1 g1, where key = "inv_api_key i1" and prov = "inv_provider i1"] h1 g1'
  have c1: "c1 = Some t" and f1: "template_fetches ev1 = 1"
    by (simp_all add: template_fetches_def)
  from s2 h2 have "email_sent (fst (paypalWebhookHandler rt (inv_api_key i2)
      (inv_template_source i2) (inv_provider i2) c1 (inv_request i2)))" by simp
  from sent_validated[OF this]
  obtain be2 it2 where v2: "validate rt (inv_request i2) = Order be2 it2"
    by blast
  have g2: "getEmailTemplate (inv_template_source i2) c1 = (Inr t, ([] :: 'n effect list), Some t)"
    using c1 t by (simp add: getEmailTemplate_hit)
  from handler_order(2)[OF v2 g2, where key = "inv_api_key i2" and prov = "inv_provider i2"] h2
  have f2: "template_fetches ev2 = 0"
    by (simp add: template_fetches_def)
  from f1 f2 show ?thesis by (simp add: template_fetches_append)
qed


lemma handler_cached:
  fixes rt :: "'n runtime"
  assumes "template_cached cache"
  shows "snd (snd (paypalWebhookHandler rt key src prov cache req)) = cache
       \<and> template_fetches (fst (snd (paypalWebhookHandler rt key src prov cache req))) = 0"
proof (cases "validate rt req")
  case (Reply r)
  then show ?thesis by (simp add: validate_reply template_fetches_def)
next
  case (Throws e)
  then show ?thesis by (simp add: validate_throws template_fetches_def)
next
  case (Order be it)
  from assms obtain t where t: "cache = Some t" "t \<noteq> []"
    by (auto simp: template_cached_def split: option.splits)
  then have g: "getEmailTemplate src cache = (Inr t, ([] :: 'n effect list), cache)"
    by (simp add: getEmailTemplate_hit)
  from handler_order[OF Order g, where key = key and prov = prov] show ?thesis
    by (simp add: template_fetches_def)
qed

lemma serve_cached:
  fixes rt :: "'n runtime"
  assumes "template_cached cache"
  shows "snd (serve rt cache invs) = cache
       \<and> template_fetches (concat (map snd (fst (serve rt cache invs)))) = 0"
proof (induction invs)
  case Nil
  then show ?case by (simp add: template_fetches_def)
next
  case (Cons i invs)
  obtain r ev c where h: "paypalWebhookHandler rt (inv_api_key i) (inv_template_source i)
      (inv_provider i) cache (inv_request i) = (r, ev, c)"
    by (cases "paypalWebhookHandler rt (inv_api_key i) (inv_template_source i)
      (inv_provider i) cache (inv_request i)") auto
  from handler_cached[OF assms, of rt "inv_api_key i" "inv_template_source i"
      "inv_provider i" "inv_request i"] h
  have c: "c = cache" and f: "template_fetches ev = 0" by simp_all
  obtain rs c' where s: "serve rt cache invs = (rs, c')"
    by (cases "serve rt cache invs") auto
  with Cons.IH have "c' = cache" "template_fetches (concat (map snd rs)) = 0" by simp_all
  with h c f s show ?case by (simp add: template_fetches_append)
qed

lemma personalize_Inr:
  "personalize rt t itemName buyerEmail = Inr html \<Longrightarrow>
   \<exists>i e. to_string rt itemName = Inr i \<and> to_string rt buyerEmail = Inr e
         \<and> html = personalize_str t i e"
  by (auto simp: personalize_def split: sum.splits)

lemma sample_validates:
  "validate mock_runtime sample_request = Order (JStr ''buyer@x.com'') (JStr ''E-book'')"
  by (simp add: validate_def sample_defs)

lemma sample_run:
  "serve mock_runtime None [sample_invocation sample_template, sample_invocation sample_template]
   = ([(sample_sent, [FetchTemplate GITHUB_EMAIL_URL,
                      sample_mail ''E-book'' ''Item: E-book / To: buyer@x.com'']),
       (sample_sent, [sample_mail ''E-book'' ''Item: E-book / To: buyer@x.com''])],
      Some sample_template)"
  by (simp add: handler_defs sample_defs)

lemma end_to_end_scenario:
  "paypalWebhookHandler mock_runtime (Some ''re_key'')
     (HttpResponse True 200 (Some sample_template)) provider_ok None sample_request
   = (respond 200 (SentJson ''Email sent to buyer@x.com'' (JStr ''em_123'')),
      [FetchTemplate GITHUB_EMAIL_URL,
       sample_mail ''E-book'' ''Item: E-book / To: buyer@x.com''],
      Some sample_template)"
  by (simp add: handler_defs sample_defs)

text \<open>
  C1. The claim fails where the template text is empty. The cache starts as \<^verbatim>\<open>null\<close>
  (line 141, "Cache template to reduce GitHub requests"), but line 144 tests it for
  truthiness, so the empty text is stored and never found again: two successful invocations
  against a template source that serves the empty text fetch twice.
\<close>

theorem empty_template_fetched_twice:
  "map (email_sent \<circ> fst) (fst (serve mock_runtime None
       [sample_invocation [], sample_invocation []])) = [True, True]
   \<and> template_fetches (concat (map snd (fst (serve mock_runtime None
       [sample_invocation [], sample_invocation []])))) = 2"
  by (simp add: handler_defs sample_defs)

text \<open>
  For a template text that is not empty the cache works: the first successful fetch stores the
  text; once a non-empty text is stored, \<^verbatim>\<open>getEmailTemplate\<close> returns it without any
  effect, whatever the template source would answer, and however many requests the
  process serves afterwards, none of them fetches the template and the cache stays as it
  is; and two successive invocations of a fresh process that both end in the e-mail-sent
  response, the first of them receiving a non-empty template, fetch the template exactly
  once between them.
\<close>

lemma template_cache_single_fetch:
  fixes rt :: "'n runtime"
  shows "getEmailTemplate (HttpResponse True st (Some t)) None
         = (Inr t, [FetchTemplate GITHUB_EMAIL_URL :: 'n effect], Some t)
       \<and> (t \<noteq> [] \<longrightarrow>
            getEmailTemplate src (Some t) = (Inr t, ([] :: 'n effect list), Some t)
            \<and> snd (serve rt (Some t) invs) = Some t
            \<and> template_fetches (concat (map snd (fst (serve rt (Some t) invs)))) = 0)
       \<and> (serve rt None [i1, i2] = ([(r1, ev1), (r2, ev2)], c)
            \<and> email_sent r1 \<and> email_sent r2
            \<and> inv_template_source i1 = HttpResponse ok st1 (Some t1) \<and> t1 \<noteq> [] \<longrightarrow>
          template_fetches (ev1 @ ev2) = 1)"
proof (intro conjI impI)
  show "getEmailTemplate (HttpResponse True st (Some t)) None
        = (Inr t, [FetchTemplate GITHUB_EMAIL_URL :: 'n effect], Some t)"
    by (rule getEmailTemplate_miss_ok) (simp add: template_cached_def)
  show "getEmailTemplate src (Some t) = (Inr t, ([] :: 'n effect list), Some t)" if "t \<noteq> []"
    using that by (rule getEmailTemplate_hit)
  show "snd (serve rt (Some t) invs) = Some t" if "t \<noteq> []"
    using that serve_cached[of "Some t" rt invs] by (simp add: template_cached_def)
  show "template_fetches (concat (map snd (fst (serve rt (Some t) invs)))) = 0" if "t \<noteq> []"
    using that serve_cached[of "Some t" rt invs] by (simp add: template_cached_def)
  show "template_fetches (ev1 @ ev2) = 1"
    if "serve rt None [i1, i2] = ([(r1, ev1), (r2, ev2)], c)
        \<and> email_sent r1 \<and> email_sent r2
        \<and> inv_template_source i1 = HttpResponse ok st1 (Some t1) \<and> t1 \<noteq> []"
    using that two_invocations_one_fetch[of rt i1 i2 r1 ev1 r2 ev2 c ok st1 t1] by blast
qed

lemma template_cache_single_fetch_example:
  "serve mock_runtime None [sample_invocation sample_template, sample_invocation sample_template]
   = ([(sample_sent, [FetchTemplate GITHUB_EMAIL_URL,
                      sample_mail ''E-book'' ''Item: E-book / To: buyer@x.com'']),
       (sample_sent, [sample_mail ''E-book'' ''Item: E-book / To: buyer@x.com''])],
      Some sample_template)
   \<and> email_sent sample_sent
   \<and> inv_template_source (sample_invocation sample_template)
       = HttpResponse True 200 (Some sample_template)
   \<and> sample_template \<noteq> []
   \<and> template_fetches ([FetchTemplate GITHUB_EMAIL_URL,
                         sample_mail ''E-book'' ''Item: E-book / To: buyer@x.com'']
                        @ [sample_mail ''E-book'' ''Item: E-book / To: buyer@x.com'']) = 1
   \<and> getEmailTemplate NetworkFailure (Some sample_template)
       = (Inr sample_template, ([] :: nat effect list), Some sample_template)
   \<and> template_fetches (concat (map snd (fst (serve mock_runtime (Some sample_template)
         [sample_invocation [], sample_invocation sample_template])))) = 0"
proof -
  have s: "email_sent sample_sent"
    by (simp add: email_sent_def sample_sent_def respond_def)
  have i: "inv_template_source (sample_invocation sample_template)
           = HttpResponse True 200 (Some sample_template)"
    by (simp add: sample_invocation_def)
  have n: "sample_template \<noteq> []" by (simp add: sample_template_def)
  show ?thesis
    using sample_run s i n
      template_cache_single_fetch[where st = 200 and t = sample_template
        and src = NetworkFailure and rt = mock_runtime
        and invs = "[sample_invocation [], sample_invocation sample_template]"
        and ?i1.0 = "sample_invocation sample_template"
        and ?i2.0 = "sample_invocation sample_template"
        and ?r1.0 = sample_sent
        and ?ev1.0 = "[FetchTemplate GITHUB_EMAIL_URL,
                      sample_mail ''E-book'' ''Item: E-book / To: buyer@x.com'']"
        and ?r2.0 = sample_sent
        and ?ev2.0 = "[sample_mail ''E-book'' ''Item: E-book / To: buyer@x.com'']"
        and c = "Some sample_template" and ok = True and ?st1.0 = 200
        and ?t1.0 = sample_template]
    by blast
qed

text \<open>
  C2. When a request has passed validation, nothing usable is cached and the template
  fetch fails (a rejected fetch, a response that is not \<^verbatim>\<open>ok\<close>, or an unreadable
  body), the answer is 500 with \<^verbatim>\<open>{error: "Failed to fetch email template"}\<close>, the
  only network call was that fetch, the cache is what it was, and the next invocation that
  passes validation fetches the template again.
\<close>

theorem template_failure_not_cached:
  fixes rt :: "'n runtime"
  assumes v: "validate rt req = Order buyerEmail itemName"
    and c: "\<not> template_cached cache" and f: "fetch_failed src"
  shows "fst (paypalWebhookHandler rt key src prov cache req)
         = respond 500 (ErrorJson ''Failed to fetch email template'')
       \<and> snd (snd (paypalWebhookHandler rt key src prov cache req)) = cache
       \<and> filter is_network_call (fst (snd (paypalWebhookHandler rt key src prov cache req)))
         = [FetchTemplate GITHUB_EMAIL_URL]
       \<and> (validate rt req' = Order buyerEmail' itemName' \<longrightarrow>
            template_fetches (fst (snd (paypalWebhookHandler rt key' src' prov'
              (snd (snd (paypalWebhookHandler rt key src prov cache req))) req'))) = 1)"
proof -
  from getEmailTemplate_miss_failed[OF c f]
  obtain err where g: "getEmailTemplate src cache
      = (Inl err, [FetchTemplate GITHUB_EMAIL_URL :: 'n effect], cache)"
    by blast
  have h: "paypalWebhookHandler rt key src prov cache req
           = (respond 500 (ErrorJson ''Failed to fetch email template''),
              [FetchTemplate GITHUB_EMAIL_URL, ConsoleError [LError err]], cache)"
    using v g by (simp add: paypalWebhookHandler_def webhook_try_def)
  have n: "template_fetches (fst (snd (paypalWebhookHandler rt key' src' prov' cache req'))) = 1"
    if v': "validate rt req' = Order buyerEmail' itemName'"
  proof -
    obtain res and ev :: "'n effect list" and cache'
      where g': "getEmailTemplate src' cache = (res, ev, cache')"
      by (cases "getEmailTemplate src' cache
            :: (js_error + string) \<times> 'n effect list \<times> string option") auto
    from getEmailTemplate_fetches[OF g'] c have "ev = [FetchTemplate GITHUB_EMAIL_URL]"
      by simp
    with handler_order(2)[OF v' g', where key = key' and prov = prov'] show ?thesis
      by (simp add: template_fetches_def)
  qed
  from h n show ?thesis by simp
qed

theorem template_failure_not_cached_witness:
  "validate mock_runtime sample_request = Order (JStr ''buyer@x.com'') (JStr ''E-book'')
   \<and> \<not> template_cached None
   \<and> fetch_failed (HttpResponse False 404 (Some ''Not Found''))
   \<and> paypalWebhookHandler mock_runtime (Some ''re_key'')
        (HttpResponse False 404 (Some ''Not Found'')) provider_ok None sample_request
      = (respond 500 (ErrorJson ''Failed to fetch email template''),
         [FetchTemplate GITHUB_EMAIL_URL, ConsoleError [LError (TemplateFetchStatus 404)]],
         None)
   \<and> template_fetches (fst (snd (paypalWebhookHandler mock_runtime (Some ''re_key'')
        (HttpResponse True 200 (Some sample_template)) provider_ok None sample_request))) = 1"
proof -
  have c: "\<not> template_cached None" by (simp add: template_cached_def)
  have f: "fetch_failed (HttpResponse False 404 (Some ''Not Found''))"
    by (simp add: fetch_failed_def)
  have h: "paypalWebhookHandler mock_runtime (Some ''re_key'')
        (HttpResponse False 404 (Some ''Not Found'')) provider_ok None sample_request
      = (respond 500 (ErrorJson ''Failed to fetch email template''),
         [FetchTemplate GITHUB_EMAIL_URL, ConsoleError [LError (TemplateFetchStatus 404)]],
         None)"
    by (simp add: handler_defs sample_defs)
  from template_failure_not_cached[OF sample_validates c f,
      where req' = sample_request and buyerEmail' = "JStr ''buyer@x.com''"
        and itemName' = "JStr ''E-book''" and key = "Some ''re_key''" and prov = provider_ok
        and key' = "Some ''re_key''" and src' = "HttpResponse True 200 (Some sample_template)"
        and prov' = provider_ok]
  show ?thesis using sample_validates c f h by simp
qed

text \<open>
  In the cached handler, when the dispatch stage is reached and the provider's response is not
  \<^verbatim>\<open>ok\<close>, the answer is 500 with the fixed body \<^verbatim>\<open>{error: "Failed to send email"}\<close>,
  the same for every status and every body text of the provider; the body text, when it
  can be read, goes to \<^verbatim>\<open>console.error\<close>.
\<close>

lemma provider_rejection_generic:
  fixes rt :: "'n runtime" and ev :: "'n effect list"
  assumes v: "validate rt req = Order buyerEmail itemName"
    and g: "getEmailTemplate src cache = (Inr emailTemplate, ev, cache')"
    and p: "personalize rt emailTemplate itemName buyerEmail = Inr html"
    and k: "key = Some k" "k \<noteq> []"
  shows "fst (paypalWebhookHandler rt key src (HttpResponse False st body) cache req)
         = respond 500 (ErrorJson ''Failed to send email'')
       \<and> (body = Some raw \<longrightarrow>
            ConsoleError [LText ''Resend API error response:'', LText raw]
            \<in> set (fst (snd (paypalWebhookHandler rt key src (HttpResponse False st body)
                               cache req))))"
proof -
  from personalize_Inr[OF p] obtain i where i: "to_string rt itemName = Inr i"
    by blast
  show ?thesis
    using v g p k i
    by (cases body)
       (simp_all add: paypalWebhookHandler_def webhook_try_def send_via_resend_def Let_def)
qed

lemma provider_rejection_generic_example:
  "validate mock_runtime sample_request = Order (JStr ''buyer@x.com'') (JStr ''E-book'')
   \<and> getEmailTemplate (HttpResponse True 200 (Some sample_template)) None
      = (Inr sample_template, [FetchTemplate GITHUB_EMAIL_URL :: nat effect], Some sample_template)
   \<and> personalize mock_runtime sample_template (JStr ''E-book'') (JStr ''buyer@x.com'')
      = Inr ''Item: E-book / To: buyer@x.com''
   \<and> fst (paypalWebhookHandler mock_runtime (Some ''re_key'')
        (HttpResponse True 200 (Some sample_template))
        (HttpResponse False 422 (Some ''invalid to field'')) None sample_request)
      = respond 500 (ErrorJson ''Failed to send email'')
   \<and> ConsoleError [LText ''Resend API error response:'', LText ''invalid to field'']
      \<in> set (fst (snd (paypalWebhookHandler mock_runtime (Some ''re_key'')
        (HttpResponse True 200 (Some sample_template))
        (HttpResponse False 422 (Some ''invalid to field'')) None sample_request)))"
proof -
  have g: "getEmailTemplate (HttpResponse True 200 (Some sample_template)) None
      = (Inr sample_template, [FetchTemplate GITHUB_EMAIL_URL :: nat effect], Some sample_template)"
    by (simp add: getEmailTemplate_def template_cached_def)
  have p: "personalize mock_runtime sample_template (JStr ''E-book'') (JStr ''buyer@x.com'')
      = Inr ''Item: E-book / To: buyer@x.com''"
    by (simp add: handler_defs sample_defs)
  have k: "Some ''re_key'' = Some ''re_key''" "''re_key'' \<noteq> []" by simp_all
  from provider_rejection_generic[OF sample_validates g p k,
      where st = 422 and body = "Some ''invalid to field''" and raw = "''invalid to field''"]
  show ?thesis using sample_validates g p by simp
qed

text \<open>
  C9. The claim holds in the cached handler only. When the provider rejects the send
  with status 422 and a JSON error document, the handler of \<^verbatim>\<open>part_000\<close>, which never
  reads \<^verbatim>\<open>ok\<close>, answers 200 with the e-mail-sent message, and the handler of
  \<^verbatim>\<open>part_001\<close>, whose \<^verbatim>\<open>sendEmail\<close> throws into the outer \<^verbatim>\<open>catch\<close>, answers
  500 with \<^verbatim>\<open>{error: "Internal Server Error"}\<close>; the cached handler answers 500 with
  \<^verbatim>\<open>{error: "Failed to send email"}\<close>.
\<close>

theorem provider_rejection_unchecked_variants:
  "handler_part_000 mock_runtime_rejecting (Some ''re_key'')
     (HttpResponse True 200 (Some sample_template)) provider_rejected sample_request
   = (respond 200 (SentJson ''Email sent to buyer@x.com'' JUndefined),
      [FetchTemplate GITHUB_EMAIL_URL,
       sample_mail ''E-book'' ''Item: E-book / To: buyer@x.com''])
   \<and> fst (paypalWebhookHandler_part_001 mock_runtime_rejecting (Some ''re_key'')
         (HttpResponse True 200 (Some sample_template)) provider_rejected None sample_request)
     = respond 500 (ErrorJson ''Internal Server Error'')
   \<and> fst (paypalWebhookHandler mock_runtime_rejecting (Some ''re_key'')
         (HttpResponse True 200 (Some sample_template)) provider_rejected None sample_request)
     = respond 500 (ErrorJson ''Failed to send email'')"
  by (simp add: variant_defs handler_defs sample_defs)

text \<open>
  C8. For a payment-completed payload with a truthy buyer e-mail whose item-name chain
  \<^verbatim>\<open>resource?.purchase_units?.[0]?.items?.[0]?.name\<close> is falsy, as it is when any
  segment is missing (the chain is then \<^verbatim>\<open>undefined\<close>), validation ends in the order
  with item name \<^verbatim>\<open>Digital Product\<close>; when the template is available and the key is
  configured the e-mail is posted to the provider with that name in the subject, and when
  the provider answers with a JSON document the response is the e-mail-sent one.
\<close>

theorem missing_item_name_defaults:
  fixes rt :: "'n runtime" and ev :: "'n effect list"
  assumes m: "req_method req = JStr ''POST''"
    and b: "parse_body rt (req_body req) = Some body"
    and e: "member ''event_type'' body = Inr (JStr ''PAYMENT.CAPTURE.COMPLETED'')"
    and be: "truthy rt (buyer_email_of (get_prop ''resource'' body))"
    and nm: "\<not> truthy rt (item_name_path (get_prop ''resource'' body))"
  shows "validate rt req
         = Order (buyer_email_of (get_prop ''resource'' body)) (JStr ''Digital Product'')
       \<and> (getEmailTemplate src cache = (Inr tmpl, ev, cache')
            \<and> to_string rt (buyer_email_of (get_prop ''resource'' body)) = Inr addr
            \<and> key = Some k \<and> k \<noteq> [] \<longrightarrow>
          PostEmail \<lparr>mail_authorization = ''Bearer '' @ k, mail_from = RESEND_EMAIL,
                     mail_to = buyer_email_of (get_prop ''resource'' body),
                     mail_subject = ''Your Digital Product is ready!'',
                     mail_html = personalize_str tmpl ''Digital Product'' addr\<rparr>
            \<in> set (fst (snd (paypalWebhookHandler rt key src prov cache req)))
          \<and> (prov = HttpResponse True st (Some answer) \<and> json_parse rt answer = Some result
               \<and> \<not> nullish result \<longrightarrow>
             fst (paypalWebhookHandler rt key src prov cache req)
             = respond 200 (SentJson (''Email sent to '' @ addr) (get_prop ''id'' result))))"
proof -
  have v: "validate rt req
         = Order (buyer_email_of (get_prop ''resource'' body)) (JStr ''Digital Product'')"
    using validate_completed[OF m b e] be nm by (simp add: item_name_of_def js_or_def)
  have d: "PostEmail \<lparr>mail_authorization = ''Bearer '' @ k, mail_from = RESEND_EMAIL,
                     mail_to = buyer_email_of (get_prop ''resource'' body),
                     mail_subject = ''Your Digital Product is ready!'',
                     mail_html = personalize_str tmpl ''Digital Product'' addr\<rparr>
            \<in> set (fst (snd (paypalWebhookHandler rt key src prov cache req)))"
    if "getEmailTemplate src cache = (Inr tmpl, ev, cache')"
      "to_string rt (buyer_email_of (get_prop ''resource'' body)) = Inr addr"
      "key = Some k" "k \<noteq> []"
    using v that
    by (auto simp: paypalWebhookHandler_def webhook_try_def send_via_resend_def Let_def
          personalize_def split: http_result.splits option.splits sum.splits)
  have s: "fst (paypalWebhookHandler rt key src prov cache req)
             = respond 200 (SentJson (''Email sent to '' @ addr) (get_prop ''id'' result))"
    if "getEmailTemplate src cache = (Inr tmpl, ev, cache')"
      "to_string rt (buyer_email_of (get_prop ''resource'' body)) = Inr addr"
      "key = Some k" "k \<noteq> []"
      "prov = HttpResponse True st (Some answer)" "json_parse rt answer = Some result"
      "\<not> nullish result"
    using v that
    by (simp add: paypalWebhookHandler_def webhook_try_def send_via_resend_def Let_def
          personalize_def member_def)
  from v d s show ?thesis by blast
qed

theorem missing_item_name_defaults_witness:
  "parse_body mock_runtime sample_event_without_units = Some sample_event_without_units
   \<and> member ''event_type'' sample_event_without_units
      = Inr (JStr ''PAYMENT.CAPTURE.COMPLETED'')
   \<and> truthy mock_runtime (buyer_email_of (get_prop ''resource'' sample_event_without_units))
   \<and> \<not> truthy mock_runtime (item_name_path (get_prop ''resource'' sample_event_without_units))
   \<and> validate mock_runtime \<lparr>req_method = JStr ''POST'', req_body = sample_event_without_units\<rparr>
      = Order (JStr ''buyer@x.com'') (JStr ''Digital Product'')
   \<and> sample_mail ''Digital Product'' ''Item: Digital Product / To: buyer@x.com''
      \<in> set (fst (snd (paypalWebhookHandler mock_runtime (Some ''re_key'')
            (HttpResponse True 200 (Some sample_template)) provider_ok None
            \<lparr>req_method = JStr ''POST'', req_body = sample_event_without_units\<rparr>)))
   \<and> fst (paypalWebhookHandler mock_runtime (Some ''re_key'')
            (HttpResponse True 200 (Some sample_template)) provider_ok None
            \<lparr>req_method = JStr ''POST'', req_body = sample_event_without_units\<rparr>)
      = sample_sent"
proof -
  let ?req = "\<lparr>req_method = JStr ''POST'', req_body = sample_event_without_units\<rparr>"
  have m: "req_method ?req = JStr ''POST''" by simp
  have b: "parse_body mock_runtime (req_body ?req) = Some sample_event_without_units"
    by (simp add: sample_defs)
  have e: "member ''event_type'' sample_event_without_units
      = Inr (JStr ''PAYMENT.CAPTURE.COMPLETED'')"
    by (simp add: sample_defs)
  have r: "buyer_email_of (get_prop ''resource'' sample_event_without_units)
           = JStr ''buyer@x.com''"
    "item_name_path (get_prop ''resource'' sample_event_without_units) = JUndefined"
    by (simp_all add: sample_defs)
  have be: "truthy mock_runtime (buyer_email_of (get_prop ''resource'' sample_event_without_units))"
    and nm: "\<not> truthy mock_runtime (item_name_path (get_prop ''resource'' sample_event_without_units))"
    using r by simp_all
  have g: "getEmailTemplate (HttpResponse True 200 (Some sample_template)) None
      = (Inr sample_template, [FetchTemplate GITHUB_EMAIL_URL :: nat effect], Some sample_template)"
    by (simp add: getEmailTemplate_def template_cached_def)
  have j: "json_parse mock_runtime provider_ok_body = Some (JObj [(''id'', JStr ''em_123'')])"
    by (simp add: mock_runtime_def)
  have t: "personalize_str sample_template ''Digital Product'' ''buyer@x.com''
           = ''Item: Digital Product / To: buyer@x.com''"
    by (simp add: handler_defs sample_defs)
  from missing_item_name_defaults[OF m b e be nm,
      where src = "HttpResponse True 200 (Some sample_template)" and cache = None
        and tmpl = sample_template and ev = "[FetchTemplate GITHUB_EMAIL_URL]"
        and cache' = "Some sample_template" and addr = "''buyer@x.com''"
        and key = "Some ''re_key''" and k = "''re_key''" and prov = provider_ok and st = 200
        and answer = provider_ok_body and result = "JObj [(''id'', JStr ''em_123'')]"]
  show ?thesis
    using b e be nm r g j t
    by (simp add: sample_mail_def sample_sent_def provider_ok_def nullish_def)
qed

end
